theory Spec2Isabelle
  imports Complex_Main
begin

section \<open>Shared data\<close>

text \<open>
  JavaScript object references are modelled as natural numbers: two references are the
  same object (\<^verbatim>\<open>===\<close>) exactly when the numbers are equal. JavaScript numbers
  are modelled as the reals, so rounding of IEEE doubles is not part of the model.
\<close>

type_synonym object3d_ref = nat
type_synonym instance_ref = nat
type_synonym scene_ref = nat
type_synonym camera_ref = nat
type_synonym renderer_ref = nat

datatype mode = Translate | Rotate | Scale

datatype space = Local | World

datatype vec3 = Vec3 (vx: real) (vy: real) (vz: real)

text \<open>
  A call of a method that an object does not have throws \<^verbatim>\<open>TypeError\<close>. A method
  that may throw returns \<open>Inl\<close> of the error, and \<open>Inr\<close> of its result otherwise.
\<close>

datatype error = TypeError

section \<open>The transform widget\<close>

text \<open>
  Modelled from the spec: the third-party transform widget (three.js
  \<^verbatim>\<open>TransformControls\<close>) is not under \<^verbatim>\<open>src/\<close>. It is modelled as the state that
  the methods called by \<^verbatim>\<open>Gizmo3DController\<close> read and write: the mode (one of
  translate, rotate, scale), the space (local or world), at most one attached 3D node,
  the enabled and visible flags, the dragging flag, the registered listeners and the
  scene it was added to. The widget (three.js 0.160) has \<^verbatim>\<open>setMode\<close>, \<^verbatim>\<open>getMode\<close>,
  \<^verbatim>\<open>setSize\<close>, \<^verbatim>\<open>setSpace\<close>, \<^verbatim>\<open>attach\<close>, \<^verbatim>\<open>detach\<close> and
  \<^verbatim>\<open>dispose\<close>; it has no \<^verbatim>\<open>getSpace\<close>.
\<close>

datatype tc_event = Change | ObjectChange

record transform_controls =
  tc_camera :: camera_ref
  tc_domElement :: renderer_ref
  tc_mode :: mode
  tc_space :: space
  tc_size :: real
  tc_enabled :: bool
  tc_visible :: bool
  tc_dragging :: bool
  tc_object :: "object3d_ref option"
  tc_listeners :: "tc_event set"
  tc_parent :: "scene_ref option"
  tc_disposed :: bool

definition TransformControls_new :: "camera_ref \<Rightarrow> renderer_ref \<Rightarrow> transform_controls" where
  "TransformControls_new camera domElement =
     \<lparr> tc_camera = camera, tc_domElement = domElement, tc_mode = Translate,
       tc_space = World, tc_size = 1, tc_enabled = True, tc_visible = False,
       tc_dragging = False, tc_object = None, tc_listeners = {}, tc_parent = None,
       tc_disposed = False \<rparr>"

definition TransformControls_setMode :: "transform_controls \<Rightarrow> mode \<Rightarrow> transform_controls" where
  "TransformControls_setMode tc m = tc\<lparr>tc_mode := m\<rparr>"

definition TransformControls_setSize :: "transform_controls \<Rightarrow> real \<Rightarrow> transform_controls" where
  "TransformControls_setSize tc sz = tc\<lparr>tc_size := sz\<rparr>"

definition TransformControls_setSpace :: "transform_controls \<Rightarrow> space \<Rightarrow> transform_controls" where
  "TransformControls_setSpace tc sp = tc\<lparr>tc_space := sp\<rparr>"

text \<open>
  \<^verbatim>\<open>getSpace\<close> is not a method of the widget: the call
  \<^verbatim>\<open>this._transformControls.getSpace()\<close> throws, whatever the widget's state.
\<close>

definition TransformControls_getSpace :: "transform_controls \<Rightarrow> error + space" where
  "TransformControls_getSpace tc = Inl TypeError"

definition TransformControls_attach :: "transform_controls \<Rightarrow> object3d_ref \<Rightarrow> transform_controls" where
  "TransformControls_attach tc obj = tc\<lparr>tc_object := Some obj, tc_visible := True\<rparr>"

definition TransformControls_detach :: "transform_controls \<Rightarrow> transform_controls" where
  "TransformControls_detach tc = tc\<lparr>tc_object := None, tc_visible := False\<rparr>"

definition TransformControls_addEventListener ::
    "transform_controls \<Rightarrow> tc_event \<Rightarrow> transform_controls" where
  "TransformControls_addEventListener tc ev = tc\<lparr>tc_listeners := insert ev (tc_listeners tc)\<rparr>"

definition TransformControls_removeEventListener ::
    "transform_controls \<Rightarrow> tc_event \<Rightarrow> transform_controls" where
  "TransformControls_removeEventListener tc ev = tc\<lparr>tc_listeners := tc_listeners tc - {ev}\<rparr>"

definition TransformControls_dispose :: "transform_controls \<Rightarrow> transform_controls" where
  "TransformControls_dispose tc = tc\<lparr>tc_disposed := True\<rparr>"

text \<open>\<^verbatim>\<open>scene.add(widget)\<close> and \<^verbatim>\<open>scene.remove(widget)\<close>, seen from the widget.\<close>

definition Scene_add :: "scene_ref \<Rightarrow> transform_controls \<Rightarrow> transform_controls" where
  "Scene_add scene tc = tc\<lparr>tc_parent := Some scene\<rparr>"

definition Scene_remove :: "scene_ref \<Rightarrow> transform_controls \<Rightarrow> transform_controls" where
  "Scene_remove scene tc = (if tc_parent tc = Some scene then tc\<lparr>tc_parent := None\<rparr> else tc)"

section \<open>Gizmo3DController\<close>

record gizmo3d_controller =
  gz_threeRenderer :: renderer_ref
  gz_threeCamera :: camera_ref
  gz_threeScene :: scene_ref
  gz_transformControls :: transform_controls
  gz_currentObject :: "object3d_ref option"
  gz_currentMode :: mode
  gz_isEnabled :: bool

definition Gizmo3DController_constructor ::
    "renderer_ref \<Rightarrow> camera_ref \<Rightarrow> scene_ref \<Rightarrow> gizmo3d_controller" where
  "Gizmo3DController_constructor threeRenderer threeCamera threeScene =
     (let tc0 = TransformControls_new threeCamera threeRenderer;
          tc1 = TransformControls_setMode tc0 Translate;
          tc2 = TransformControls_setSize tc1 0.8;
          tc3 = TransformControls_setSpace tc2 Local;
          tc4 = TransformControls_addEventListener tc3 Change;
          tc5 = TransformControls_addEventListener tc4 ObjectChange;
          tc6 = Scene_add threeScene tc5
      in \<lparr> gz_threeRenderer = threeRenderer, gz_threeCamera = threeCamera,
           gz_threeScene = threeScene, gz_transformControls = tc6,
           gz_currentObject = None, gz_currentMode = Translate, gz_isEnabled = False \<rparr>)"

definition Gizmo3DController_setObject ::
    "gizmo3d_controller \<Rightarrow> object3d_ref option \<Rightarrow> gizmo3d_controller" where
  "Gizmo3DController_setObject g obj =
     (let g1 = g\<lparr>gz_currentObject := obj\<rparr>;
          g2 = g1\<lparr>gz_transformControls := TransformControls_detach (gz_transformControls g1)\<rparr>
      in case obj of
           Some ob \<Rightarrow>
             if gz_isEnabled g2
             then g2\<lparr>gz_transformControls := TransformControls_attach (gz_transformControls g2) ob\<rparr>
             else g2
         | None \<Rightarrow> g2)"

definition Gizmo3DController_setMode :: "gizmo3d_controller \<Rightarrow> mode \<Rightarrow> gizmo3d_controller" where
  "Gizmo3DController_setMode g m =
     (let g1 = g\<lparr>gz_currentMode := m\<rparr>
      in g1\<lparr>gz_transformControls := TransformControls_setMode (gz_transformControls g1) m\<rparr>)"

text \<open>
  \<^verbatim>\<open>toggleSpace\<close> reads the space with \<^verbatim>\<open>getSpace()\<close> first; when that call
  throws, \<^verbatim>\<open>setSpace\<close> is not reached and the controller is left as it was.
\<close>

definition Gizmo3DController_toggleSpace :: "gizmo3d_controller \<Rightarrow> error + gizmo3d_controller" where
  "Gizmo3DController_toggleSpace g =
     (case TransformControls_getSpace (gz_transformControls g) of
        Inl e \<Rightarrow> Inl e
      | Inr currentSpace \<Rightarrow>
          Inr (g\<lparr>gz_transformControls :=
                   TransformControls_setSpace (gz_transformControls g)
                     (if currentSpace = Local then World else Local)\<rparr>))"

definition Gizmo3DController_setEnabled :: "gizmo3d_controller \<Rightarrow> bool \<Rightarrow> gizmo3d_controller" where
  "Gizmo3DController_setEnabled g enabled =
     (let g1 = g\<lparr>gz_isEnabled := enabled\<rparr>;
          g2 = g1\<lparr>gz_transformControls :=
                    (gz_transformControls g1)\<lparr>tc_enabled := enabled, tc_visible := enabled\<rparr>\<rparr>
      in if \<not> enabled
         then g2\<lparr>gz_transformControls := TransformControls_detach (gz_transformControls g2)\<rparr>
         else (case gz_currentObject g2 of
                 Some ob \<Rightarrow>
                   g2\<lparr>gz_transformControls := TransformControls_attach (gz_transformControls g2) ob\<rparr>
               | None \<Rightarrow> g2))"

definition Gizmo3DController_isDragging :: "gizmo3d_controller \<Rightarrow> bool" where
  "Gizmo3DController_isDragging g = tc_dragging (gz_transformControls g)"

definition Gizmo3DController_getCurrentMode :: "gizmo3d_controller \<Rightarrow> mode" where
  "Gizmo3DController_getCurrentMode g = gz_currentMode g"

definition Gizmo3DController_dispose :: "gizmo3d_controller \<Rightarrow> gizmo3d_controller" where
  "Gizmo3DController_dispose g =
     (let tc1 = TransformControls_removeEventListener (gz_transformControls g) Change;
          tc2 = TransformControls_removeEventListener tc1 ObjectChange;
          tc3 = Scene_remove (gz_threeScene g) tc2;
          tc4 = TransformControls_dispose tc3
      in g\<lparr>gz_transformControls := tc4\<rparr>)"

section \<open>SelectedInstances3D: the control state\<close>

text \<open>
  The JavaScript \<^verbatim>\<open>Map\<close> from instances to 3D nodes is an association list in
  insertion order (the order \<^verbatim>\<open>for ... of\<close> visits it); \<^verbatim>\<open>Map.get\<close> is the
  first entry with the key, \<^verbatim>\<open>undefined\<close> is \<open>None\<close>.
\<close>

type_synonym instance_map = "(instance_ref \<times> object3d_ref) list"

definition Map_get :: "instance_map \<Rightarrow> instance_ref \<Rightarrow> object3d_ref option" where
  "Map_get m k = map_of m k"

record selected_instances_3d =
  si_gizmoController :: "gizmo3d_controller option"
  si_selectedInstances :: "instance_ref list"
  si_instanceToObjectMap :: instance_map
  si_currentMode :: mode
  si_enabled :: bool

definition SelectedInstances3D_constructor ::
    "renderer_ref option \<Rightarrow> camera_ref option \<Rightarrow> scene_ref option \<Rightarrow> selected_instances_3d" where
  "SelectedInstances3D_constructor threeRenderer threeCamera threeScene =
     \<lparr> si_gizmoController =
         (case (threeRenderer, threeCamera, threeScene) of
            (Some r, Some c, Some sc) \<Rightarrow> Some (Gizmo3DController_constructor r c sc)
          | _ \<Rightarrow> None),
       si_selectedInstances = [],
       si_instanceToObjectMap = [],
       si_currentMode = Translate,
       si_enabled = False \<rparr>"

definition SelectedInstances3D_updateSelection ::
    "selected_instances_3d \<Rightarrow> instance_ref list \<Rightarrow> instance_map \<Rightarrow> selected_instances_3d" where
  "SelectedInstances3D_updateSelection s instances instanceToObjectMap =
     (let s1 = s\<lparr>si_selectedInstances := instances,
                 si_instanceToObjectMap := instanceToObjectMap\<rparr>
      in case si_gizmoController s1 of
           None \<Rightarrow> s1
         | Some g \<Rightarrow>
             if length instances = 1 \<and> si_enabled s1
             then (case Map_get instanceToObjectMap (instances ! 0) of
                     Some obj \<Rightarrow>
                       s1\<lparr>si_gizmoController := Some (Gizmo3DController_setObject g (Some obj))\<rparr>
                   | None \<Rightarrow>
                       s1\<lparr>si_gizmoController := Some (Gizmo3DController_setObject g None)\<rparr>)
             else s1\<lparr>si_gizmoController := Some (Gizmo3DController_setObject g None)\<rparr>)"

definition SelectedInstances3D_setMode :: "selected_instances_3d \<Rightarrow> mode \<Rightarrow> selected_instances_3d" where
  "SelectedInstances3D_setMode s m =
     (let s1 = s\<lparr>si_currentMode := m\<rparr>
      in case si_gizmoController s1 of
           Some g \<Rightarrow> s1\<lparr>si_gizmoController := Some (Gizmo3DController_setMode g m)\<rparr>
         | None \<Rightarrow> s1)"

definition SelectedInstances3D_toggleSpace ::
    "selected_instances_3d \<Rightarrow> error + selected_instances_3d" where
  "SelectedInstances3D_toggleSpace s =
     (case si_gizmoController s of
        Some g \<Rightarrow>
          (case Gizmo3DController_toggleSpace g of
             Inl e \<Rightarrow> Inl e
           | Inr g1 \<Rightarrow> Inr (s\<lparr>si_gizmoController := Some g1\<rparr>))
      | None \<Rightarrow> Inr s)"

definition SelectedInstances3D_setEnabled :: "selected_instances_3d \<Rightarrow> bool \<Rightarrow> selected_instances_3d" where
  "SelectedInstances3D_setEnabled s enabled =
     (let s1 = s\<lparr>si_enabled := enabled\<rparr>
      in case si_gizmoController s1 of
           None \<Rightarrow> s1
         | Some g \<Rightarrow>
             (let g1 = Gizmo3DController_setEnabled g enabled
              in if enabled \<and> length (si_selectedInstances s1) = 1
                 then (case Map_get (si_instanceToObjectMap s1) (si_selectedInstances s1 ! 0) of
                         Some obj \<Rightarrow>
                           s1\<lparr>si_gizmoController := Some (Gizmo3DController_setObject g1 (Some obj))\<rparr>
                       | None \<Rightarrow> s1\<lparr>si_gizmoController := Some g1\<rparr>)
                 else if \<not> enabled
                 then s1\<lparr>si_gizmoController := Some (Gizmo3DController_setObject g1 None)\<rparr>
                 else s1\<lparr>si_gizmoController := Some g1\<rparr>))"

definition SelectedInstances3D_isDragging :: "selected_instances_3d \<Rightarrow> bool" where
  "SelectedInstances3D_isDragging s =
     (case si_gizmoController s of Some g \<Rightarrow> Gizmo3DController_isDragging g | None \<Rightarrow> False)"

definition SelectedInstances3D_getCurrentMode :: "selected_instances_3d \<Rightarrow> mode" where
  "SelectedInstances3D_getCurrentMode s = si_currentMode s"

definition SelectedInstances3D_getCurrentSpace :: "selected_instances_3d \<Rightarrow> error + space" where
  "SelectedInstances3D_getCurrentSpace s =
     (case si_gizmoController s of
        Some g \<Rightarrow> TransformControls_getSpace (gz_transformControls g)
      | None \<Rightarrow> Inr Local)"

definition SelectedInstances3D_isAvailable :: "selected_instances_3d \<Rightarrow> bool" where
  "SelectedInstances3D_isAvailable s = (si_gizmoController s \<noteq> None)"

text \<open>
  \<^verbatim>\<open>dispose\<close> disposes the gizmo controller, drops it, and clears the map object
  (the one the caller passed to \<^verbatim>\<open>updateSelection\<close>).
\<close>

definition SelectedInstances3D_dispose :: "selected_instances_3d \<Rightarrow> selected_instances_3d" where
  "SelectedInstances3D_dispose s =
     (let s1 = (case si_gizmoController s of
                  Some g \<Rightarrow>
                    (let disposed = Gizmo3DController_dispose g
                     in s\<lparr>si_gizmoController := None\<rparr>)
                | None \<Rightarrow> s)
      in s1\<lparr>si_instanceToObjectMap := []\<rparr>)"

text \<open>The node the widget is attached to; there is none without a gizmo controller.\<close>

definition attachedObject :: "selected_instances_3d \<Rightarrow> object3d_ref option" where
  "attachedObject s =
     (case si_gizmoController s of
        Some g \<Rightarrow> tc_object (gz_transformControls g)
      | None \<Rightarrow> None)"

text \<open>
  The states the class can be in: built by the constructor and changed by its public
  methods, and by the user dragging the widget (which the widget records in its
  \<^verbatim>\<open>dragging\<close> flag). A call that throws has changed nothing before it throws, so
  it leads to no new state.
\<close>

inductive reachable :: "selected_instances_3d \<Rightarrow> bool" where
  r_constructor: "reachable (SelectedInstances3D_constructor threeRenderer threeCamera threeScene)"
| r_updateSelection:
    "reachable s \<Longrightarrow> reachable (SelectedInstances3D_updateSelection s instances instanceToObjectMap)"
| r_setMode: "reachable s \<Longrightarrow> reachable (SelectedInstances3D_setMode s m)"
| r_toggleSpace: "reachable s \<Longrightarrow> SelectedInstances3D_toggleSpace s = Inr s' \<Longrightarrow> reachable s'"
| r_setEnabled: "reachable s \<Longrightarrow> reachable (SelectedInstances3D_setEnabled s enabled)"
| r_dispose: "reachable s \<Longrightarrow> reachable (SelectedInstances3D_dispose s)"
| r_drag:
    "reachable s \<Longrightarrow> si_gizmoController s = Some g \<Longrightarrow>
     reachable (s\<lparr>si_gizmoController :=
                  Some (g\<lparr>gz_transformControls := (gz_transformControls g)\<lparr>tc_dragging := d\<rparr>\<rparr>)\<rparr>)"

text \<open>
  The attachment policy as a predicate on states: with a gizmo controller, its enabled
  flag agrees with the owner's, the widget is attached to the controller's current node,
  and that node is the one mapped to the sole selected instance when sync is enabled, and
  null otherwise.
\<close>

definition attach_inv :: "selected_instances_3d \<Rightarrow> bool" where
  "attach_inv s =
     (case si_gizmoController s of
        None \<Rightarrow> True
      | Some g \<Rightarrow>
          gz_isEnabled g = si_enabled s \<and>
          tc_object (gz_transformControls g) = gz_currentObject g \<and>
          gz_currentObject g =
            (if si_enabled s \<and> length (si_selectedInstances s) = 1
             then Map_get (si_instanceToObjectMap s) (si_selectedInstances s ! 0)
             else None))"

section \<open>The 3D nodes, the instances and the completed-edit handler\<close>

text \<open>
  A 3D node (\<^verbatim>\<open>THREE.Object3D\<close>) as far as the code reads and writes it: its parent,
  its transform (the rotation as Euler angles in radians), and the pending-edit annotation
  in \<^verbatim>\<open>userData\<close>. An absent \<^verbatim>\<open>needsUpdate\<close> is falsy and is \<open>False\<close> here;
  an absent snapshot is \<open>None\<close>.
\<close>

record user_data =
  ud_needsUpdate :: bool
  ud_position :: "vec3 option"
  ud_rotation :: "vec3 option"
  ud_scale :: "vec3 option"

record object3d =
  obj_parent :: "object3d_ref option"
  obj_position :: vec3
  obj_rotation :: vec3
  obj_scale :: vec3
  obj_userData :: user_data

text \<open>
  Modelled from the spec: the domain instance (\<^verbatim>\<open>gdInitialInstance\<close>) is not under
  \<^verbatim>\<open>src/\<close>. It is modelled as the values its getters return and its setters store
  (position, width/height/depth, yaw, pitch and roll), with one flag for each member the code
  checks for presence before it uses it, since not every instance kind supports every
  setter. \<^verbatim>\<open>_getOriginalWidth\<close>, \<^verbatim>\<open>_getOriginalHeight\<close> and
  \<^verbatim>\<open>_getOriginalDepth\<close> are \<open>Some\<close> of the value they return when the instance has
  them and \<open>None\<close> when it does not.
\<close>

record initial_instance =
  in_x :: real
  in_y :: real
  in_z :: real
  in_width :: real
  in_height :: real
  in_depth :: real
  in_angle :: real
  in_rotationX :: real
  in_rotationY :: real
  in_hasCustomSize :: bool
  in_setZ :: bool
  in_getDepth :: bool
  in_setAngle :: bool
  in_setRotationX :: bool
  in_setRotationY :: bool
  in_setDepth :: bool
  in_getOriginalWidth :: "real option"
  in_getOriginalHeight :: "real option"
  in_getOriginalDepth :: "real option"

text \<open>
  Every setter call on an instance and every call of the \<^verbatim>\<open>onInstanceTransformed\<close>
  callback is recorded, in order.
\<close>

datatype call =
    SetX instance_ref real
  | SetY instance_ref real
  | SetZ instance_ref real
  | SetAngle instance_ref real
  | SetRotationX instance_ref real
  | SetRotationY instance_ref real
  | SetWidth instance_ref real
  | SetHeight instance_ref real
  | SetDepth instance_ref real
  | InstanceTransformed instance_ref mode

record world =
  objects :: "object3d_ref \<Rightarrow> object3d"
  instances :: "instance_ref \<Rightarrow> initial_instance"
  calls :: "call list"

definition getWidth :: "world \<Rightarrow> instance_ref \<Rightarrow> real" where
  "getWidth w i = in_width (instances w i)"

definition getHeight :: "world \<Rightarrow> instance_ref \<Rightarrow> real" where
  "getHeight w i = in_height (instances w i)"

definition getDepth :: "world \<Rightarrow> instance_ref \<Rightarrow> real" where
  "getDepth w i = in_depth (instances w i)"

definition setX :: "instance_ref \<Rightarrow> real \<Rightarrow> world \<Rightarrow> world" where
  "setX i v w = w\<lparr>instances := (instances w)(i := (instances w i)\<lparr>in_x := v\<rparr>),
                  calls := calls w @ [SetX i v]\<rparr>"

definition setY :: "instance_ref \<Rightarrow> real \<Rightarrow> world \<Rightarrow> world" where
  "setY i v w = w\<lparr>instances := (instances w)(i := (instances w i)\<lparr>in_y := v\<rparr>),
                  calls := calls w @ [SetY i v]\<rparr>"

definition setZ :: "instance_ref \<Rightarrow> real \<Rightarrow> world \<Rightarrow> world" where
  "setZ i v w = w\<lparr>instances := (instances w)(i := (instances w i)\<lparr>in_z := v\<rparr>),
                  calls := calls w @ [SetZ i v]\<rparr>"

definition setAngle :: "instance_ref \<Rightarrow> real \<Rightarrow> world \<Rightarrow> world" where
  "setAngle i v w = w\<lparr>instances := (instances w)(i := (instances w i)\<lparr>in_angle := v\<rparr>),
                      calls := calls w @ [SetAngle i v]\<rparr>"

definition setRotationX :: "instance_ref \<Rightarrow> real \<Rightarrow> world \<Rightarrow> world" where
  "setRotationX i v w = w\<lparr>instances := (instances w)(i := (instances w i)\<lparr>in_rotationX := v\<rparr>),
                          calls := calls w @ [SetRotationX i v]\<rparr>"

definition setRotationY :: "instance_ref \<Rightarrow> real \<Rightarrow> world \<Rightarrow> world" where
  "setRotationY i v w = w\<lparr>instances := (instances w)(i := (instances w i)\<lparr>in_rotationY := v\<rparr>),
                          calls := calls w @ [SetRotationY i v]\<rparr>"

definition setWidth :: "instance_ref \<Rightarrow> real \<Rightarrow> world \<Rightarrow> world" where
  "setWidth i v w = w\<lparr>instances := (instances w)(i := (instances w i)\<lparr>in_width := v\<rparr>),
                      calls := calls w @ [SetWidth i v]\<rparr>"

definition setHeight :: "instance_ref \<Rightarrow> real \<Rightarrow> world \<Rightarrow> world" where
  "setHeight i v w = w\<lparr>instances := (instances w)(i := (instances w i)\<lparr>in_height := v\<rparr>),
                       calls := calls w @ [SetHeight i v]\<rparr>"

definition setDepth :: "instance_ref \<Rightarrow> real \<Rightarrow> world \<Rightarrow> world" where
  "setDepth i v w = w\<lparr>instances := (instances w)(i := (instances w i)\<lparr>in_depth := v\<rparr>),
                      calls := calls w @ [SetDepth i v]\<rparr>"

definition onInstanceTransformed :: "instance_ref \<Rightarrow> mode \<Rightarrow> world \<Rightarrow> world" where
  "onInstanceTransformed i transformType w =
     w\<lparr>calls := calls w @ [InstanceTransformed i transformType]\<rparr>"

subsection \<open>Gizmo3DController: the widget's two events\<close>

definition Gizmo3DController_updateObject3DFromControls ::
    "gizmo3d_controller \<Rightarrow> world \<Rightarrow> world" where
  "Gizmo3DController_updateObject3DFromControls g w =
     (case gz_currentObject g of
        None \<Rightarrow> w
      | Some cur \<Rightarrow>
          (let position = obj_position (objects w cur);
               rotation = obj_rotation (objects w cur);
               scale = obj_scale (objects w cur);
               ud = (obj_userData (objects w cur))
                      \<lparr>ud_needsUpdate := True,
                       ud_position := Some (Vec3 (vx position) (vy position) (vz position)),
                       ud_rotation := Some (Vec3 (vx rotation) (vy rotation) (vz rotation)),
                       ud_scale := Some (Vec3 (vx scale) (vy scale) (vz scale))\<rparr>
           in w\<lparr>objects := (objects w)(cur := (objects w cur)\<lparr>obj_userData := ud\<rparr>)\<rparr>))"

definition Gizmo3DController_onControlsChange :: "gizmo3d_controller \<Rightarrow> world \<Rightarrow> world" where
  "Gizmo3DController_onControlsChange g w =
     (case gz_currentObject g of
        Some cur \<Rightarrow> Gizmo3DController_updateObject3DFromControls g w
      | None \<Rightarrow> w)"

text \<open>
  The owner's callback is a parameter; it may not return (see the ancestor walk below),
  which is the value \<open>None\<close>.
\<close>

definition Gizmo3DController_onObjectChange ::
    "(object3d_ref \<Rightarrow> mode \<Rightarrow> world \<Rightarrow> world option) \<Rightarrow> gizmo3d_controller \<Rightarrow> world \<Rightarrow> world option" where
  "Gizmo3DController_onObjectChange onObjectChanged g w =
     (case gz_currentObject g of
        Some cur \<Rightarrow> onObjectChanged cur (gz_currentMode g) w
      | None \<Rightarrow> Some w)"

subsection \<open>SelectedInstances3D: from a node back to its instance\<close>

text \<open>
  \<^verbatim>\<open>_isChildOf\<close> walks the parent references until it finds the node or runs out of
  parents. On a parent chain that loops it never returns: the value \<open>None\<close>.
\<close>

partial_function (option) isChildOf_loop ::
    "(object3d_ref \<Rightarrow> object3d) \<Rightarrow> object3d_ref option \<Rightarrow> object3d_ref \<Rightarrow> bool option" where
  "isChildOf_loop objs current parent =
     (case current of
        None \<Rightarrow> Some False
      | Some cur \<Rightarrow>
          if cur = parent then Some True
          else isChildOf_loop objs (obj_parent (objs cur)) parent)"

definition SelectedInstances3D_isChildOf ::
    "world \<Rightarrow> object3d_ref \<Rightarrow> object3d_ref \<Rightarrow> bool option" where
  "SelectedInstances3D_isChildOf w child parent =
     isChildOf_loop (objects w) (obj_parent (objects w child)) parent"

fun findInstanceForObject_loop ::
    "world \<Rightarrow> instance_map \<Rightarrow> object3d_ref \<Rightarrow> instance_ref option option" where
  "findInstanceForObject_loop w [] object = Some None"
| "findInstanceForObject_loop w ((instance, obj) # rest) object =
     (if obj = object \<or> obj_parent (objects w obj) = Some object then Some (Some instance)
      else (case SelectedInstances3D_isChildOf w obj object of
              None \<Rightarrow> None
            | Some True \<Rightarrow> Some (Some instance)
            | Some False \<Rightarrow> findInstanceForObject_loop w rest object))"

definition SelectedInstances3D_findInstanceForObject ::
    "selected_instances_3d \<Rightarrow> world \<Rightarrow> object3d_ref \<Rightarrow> instance_ref option option" where
  "SelectedInstances3D_findInstanceForObject s w object =
     findInstanceForObject_loop w (si_instanceToObjectMap s) object"

subsection \<open>SelectedInstances3D: applying a completed edit\<close>

text \<open>The three branches of \<^verbatim>\<open>_onObjectChanged\<close>, statement by statement.\<close>

definition onObjectChanged_translate :: "instance_ref \<Rightarrow> vec3 \<Rightarrow> world \<Rightarrow> world" where
  "onObjectChanged_translate instance position w =
     (let w1 = setX instance (vx position - getWidth w instance / 2) w;
          w2 = setY instance (vy position - getHeight w1 instance / 2) w1
      in if in_hasCustomSize (instances w2 instance) \<and> in_setZ (instances w2 instance)
         then setZ instance
                (vz position -
                   (if in_getDepth (instances w2 instance) then getDepth w2 instance else 0) / 2) w2
         else w2)"

definition onObjectChanged_rotate :: "instance_ref \<Rightarrow> vec3 \<Rightarrow> world \<Rightarrow> world" where
  "onObjectChanged_rotate instance rotation w =
     (let w1 = (if in_setAngle (instances w instance)
                then setAngle instance (vz rotation * 180 / pi) w else w);
          w2 = (if in_setRotationX (instances w1 instance)
                then setRotationX instance (vx rotation * 180 / pi) w1 else w1)
      in if in_setRotationY (instances w2 instance)
         then setRotationY instance (vy rotation * 180 / pi) w2 else w2)"

definition onObjectChanged_scale :: "instance_ref \<Rightarrow> vec3 \<Rightarrow> world \<Rightarrow> world" where
  "onObjectChanged_scale instance scale w =
     (let originalWidth = (case in_getOriginalWidth (instances w instance) of
                             Some ow \<Rightarrow> ow | None \<Rightarrow> getWidth w instance);
          originalHeight = (case in_getOriginalHeight (instances w instance) of
                              Some oh \<Rightarrow> oh | None \<Rightarrow> getHeight w instance);
          w1 = setWidth instance (originalWidth * \<bar>vx scale\<bar>) w;
          w2 = setHeight instance (originalHeight * \<bar>vy scale\<bar>) w1
      in case in_getOriginalDepth (instances w2 instance) of
           Some originalDepth \<Rightarrow>
             if in_setDepth (instances w2 instance)
             then setDepth instance (originalDepth * \<bar>vz scale\<bar>) w2 else w2
         | None \<Rightarrow> w2)"

definition SelectedInstances3D_onObjectChanged ::
    "selected_instances_3d \<Rightarrow> object3d_ref \<Rightarrow> mode \<Rightarrow> world \<Rightarrow> world option" where
  "SelectedInstances3D_onObjectChanged s object transformType w =
     (case SelectedInstances3D_findInstanceForObject s w object of
        None \<Rightarrow> None
      | Some None \<Rightarrow> Some w
      | Some (Some instance) \<Rightarrow>
          if ud_needsUpdate (obj_userData (objects w object))
          then (let ud = obj_userData (objects w object);
                    w1 = (if transformType = Translate \<and> ud_position ud \<noteq> None
                          then onObjectChanged_translate instance (the (ud_position ud)) w
                          else if transformType = Rotate \<and> ud_rotation ud \<noteq> None
                          then onObjectChanged_rotate instance (the (ud_rotation ud)) w
                          else if transformType = Scale \<and> ud_scale ud \<noteq> None
                          then onObjectChanged_scale instance (the (ud_scale ud)) w
                          else w);
                    w2 = w1\<lparr>objects := (objects w1)
                             (object := (objects w1 object)
                                \<lparr>obj_userData := (obj_userData (objects w1 object))
                                                   \<lparr>ud_needsUpdate := False\<rparr>\<rparr>)\<rparr>
                in Some (onInstanceTransformed instance transformType w2))
          else Some w)"

text \<open>
  The widget's terminal event, as wired by the constructor: the gizmo controller passes
  its current node and mode to \<^verbatim>\<open>_onObjectChanged\<close>.
\<close>

definition SelectedInstances3D_objectChangeEvent ::
    "selected_instances_3d \<Rightarrow> world \<Rightarrow> world option" where
  "SelectedInstances3D_objectChangeEvent s w =
     (case si_gizmoController s of
        Some g \<Rightarrow> Gizmo3DController_onObjectChange (SelectedInstances3D_onObjectChanged s) g w
      | None \<Rightarrow> Some w)"

text \<open>The value of an instance after a run of the handler, if the handler returned.\<close>

definition instanceAfter :: "world option \<Rightarrow> instance_ref \<Rightarrow> initial_instance option" where
  "instanceAfter r i = (case r of None \<Rightarrow> None | Some w \<Rightarrow> Some (instances w i))"

text \<open>
  The calls recorded and the pending flag of a node after a run of the handler, if the
  handler returned.
\<close>

definition callsAfter :: "world option \<Rightarrow> call list option" where
  "callsAfter r = (case r of None \<Rightarrow> None | Some w \<Rightarrow> Some (calls w))"

definition needsUpdateAfter :: "world option \<Rightarrow> object3d_ref \<Rightarrow> bool option" where
  "needsUpdateAfter r object =
     (case r of None \<Rightarrow> None
      | Some w \<Rightarrow> Some (ud_needsUpdate (obj_userData (objects w object))))"

subsection \<open>A small scene to run the handler on\<close>

text \<open>
  One instance kind and one node shape, used for all references: a world in which every
  node is a root carrying the given annotation and every instance has the given value.
\<close>

definition example_instance :: initial_instance where
  "example_instance =
     \<lparr> in_x = 0, in_y = 0, in_z = 0, in_width = 6, in_height = 8, in_depth = 0,
       in_angle = 0, in_rotationX = 0, in_rotationY = 0,
       in_hasCustomSize = True, in_setZ = True, in_getDepth = True, in_setAngle = True,
       in_setRotationX = True, in_setRotationY = True, in_setDepth = True,
       in_getOriginalWidth = None, in_getOriginalHeight = None,
       in_getOriginalDepth = None \<rparr>"

definition example_world :: "user_data \<Rightarrow> initial_instance \<Rightarrow> world" where
  "example_world ud inst =
     \<lparr> objects = (\<lambda>_. \<lparr> obj_parent = None, obj_position = Vec3 0 0 0,
                           obj_rotation = Vec3 0 0 0, obj_scale = Vec3 1 1 1,
                           obj_userData = ud \<rparr>),
       instances = (\<lambda>_. inst),
       calls = [] \<rparr>"

text \<open>Sync enabled, instance 5 selected alone and mapped to node 7.\<close>

definition example_selection :: selected_instances_3d where
  "example_selection =
     SelectedInstances3D_updateSelection
       (SelectedInstances3D_setEnabled
          (SelectedInstances3D_constructor (Some 0) (Some 0) (Some 0)) True)
       [5] [(5, 7)]"

section \<open>FreeCameraController\<close>

text \<open>
  The three.js values the controller works on. \<^verbatim>\<open>Spherical\<close> holds a radius, the
  polar angle \<open>phi\<close> and the azimuthal angle \<open>theta\<close>; a camera is modelled by its
  position, its orientation quaternion and its matrix.
\<close>

record spherical =
  sph_radius :: real
  sph_phi :: real
  sph_theta :: real

datatype quaternion = Quaternion (qx: real) (qy: real) (qz: real) (qw: real)

record camera =
  cam_position :: vec3
  cam_quaternion :: quaternion
  cam_matrix :: "real list"

text \<open>
  The vector arithmetic of three.js that is plain component arithmetic is written out.
  The library functions that are not (the conversions between Cartesian and spherical
  coordinates, reading a matrix column, rotating by a quaternion and \<^verbatim>\<open>lookAt\<close>) are
  not under \<^verbatim>\<open>src/\<close>; the controller takes them as a parameter, and every result
  below holds for any choice of them.
\<close>

definition Vector3_add :: "vec3 \<Rightarrow> vec3 \<Rightarrow> vec3" where
  "Vector3_add a b = Vec3 (vx a + vx b) (vy a + vy b) (vz a + vz b)"

definition Vector3_sub :: "vec3 \<Rightarrow> vec3 \<Rightarrow> vec3" where
  "Vector3_sub a b = Vec3 (vx a - vx b) (vy a - vy b) (vz a - vz b)"

definition Vector3_multiplyScalar :: "vec3 \<Rightarrow> real \<Rightarrow> vec3" where
  "Vector3_multiplyScalar a k = Vec3 (vx a * k) (vy a * k) (vz a * k)"

definition Vector3_length :: "vec3 \<Rightarrow> real" where
  "Vector3_length a = sqrt (vx a * vx a + vy a * vy a + vz a * vz a)"

record three_math =
  Spherical_setFromVector3 :: "vec3 \<Rightarrow> spherical"
  Vector3_setFromSpherical :: "spherical \<Rightarrow> vec3"
  Vector3_setFromMatrixColumn :: "real list \<Rightarrow> nat \<Rightarrow> vec3"
  Vector3_applyQuaternion :: "vec3 \<Rightarrow> quaternion \<Rightarrow> vec3"
  Camera_lookAt :: "camera \<Rightarrow> vec3 \<Rightarrow> camera"

record mouse_event =
  me_button :: int
  me_clientX :: real
  me_clientY :: real

record wheel_event =
  we_deltaY :: real

record keyboard_event =
  ke_code :: string

datatype dom_event = Mousedown | Mousemove | Mouseup | Wheel | Contextmenu | Keydown | Keyup

record free_camera_controller =
  fc_camera :: camera
  fc_renderer :: renderer_ref
  fc_domListeners :: "dom_event set"
  fc_windowListeners :: "dom_event set"
  fc_target :: vec3
  fc_isMouseDown :: bool
  fc_mouseButton :: int
  fc_lastMousePosition :: "real \<times> real"
  fc_spherical :: spherical
  fc_sphericalTarget :: spherical
  fc_distance :: real
  fc_targetDistance :: real
  fc_keys :: "string \<rightharpoonup> bool"
  fc_keyMoveSpeed :: real
  fc_enableKeys :: bool
  fc_enableRotate :: bool
  fc_enableZoom :: bool
  fc_enablePan :: bool
  fc_rotateSpeed :: real
  fc_zoomSpeed :: real
  fc_panSpeed :: real
  fc_minDistance :: real
  fc_maxDistance :: real
  fc_minPolarAngle :: real
  fc_maxPolarAngle :: real
  fc_isEnabled :: bool

definition FreeCameraController_updateSphericalFromCamera ::
    "three_math \<Rightarrow> free_camera_controller \<Rightarrow> free_camera_controller" where
  "FreeCameraController_updateSphericalFromCamera three s =
     (let offset = Vector3_sub (cam_position (fc_camera s)) (fc_target s);
          s1 = s\<lparr>fc_spherical := Spherical_setFromVector3 three offset\<rparr>;
          s2 = s1\<lparr>fc_sphericalTarget := fc_spherical s1\<rparr>
      in s2\<lparr>fc_targetDistance := Vector3_length offset, fc_distance := Vector3_length offset\<rparr>)"

text \<open>
  The constructor: the field initialisers of the class, then the arguments (an absent
  \<^verbatim>\<open>target\<close> is the origin, an absent \<^verbatim>\<open>enableKeys\<close> is true), then the spherical
  coordinates read off the camera. A fresh \<^verbatim>\<open>Spherical\<close> has radius 1 and both angles 0.
\<close>

definition FreeCameraController_constructor ::
    "three_math \<Rightarrow> camera \<Rightarrow> renderer_ref \<Rightarrow> vec3 option \<Rightarrow> bool option \<Rightarrow> free_camera_controller" where
  "FreeCameraController_constructor three cam renderer target enableKeys =
     FreeCameraController_updateSphericalFromCamera three
       \<lparr> fc_camera = cam, fc_renderer = renderer,
         fc_domListeners = {}, fc_windowListeners = {},
         fc_target = (case target of Some t \<Rightarrow> t | None \<Rightarrow> Vec3 0 0 0),
         fc_isMouseDown = False, fc_mouseButton = 0, fc_lastMousePosition = (0, 0),
         fc_spherical = \<lparr>sph_radius = 1, sph_phi = 0, sph_theta = 0\<rparr>,
         fc_sphericalTarget = \<lparr>sph_radius = 1, sph_phi = 0, sph_theta = 0\<rparr>,
         fc_distance = 10, fc_targetDistance = 10,
         fc_keys = Map.empty, fc_keyMoveSpeed = 0.5,
         fc_enableKeys = (case enableKeys of Some b \<Rightarrow> b | None \<Rightarrow> True),
         fc_enableRotate = True, fc_enableZoom = True, fc_enablePan = True,
         fc_rotateSpeed = 1.0, fc_zoomSpeed = 1.0, fc_panSpeed = 1.0,
         fc_minDistance = 0.1, fc_maxDistance = 1000,
         fc_minPolarAngle = 0, fc_maxPolarAngle = pi,
         fc_isEnabled = False \<rparr>"

text \<open>\<^verbatim>\<open>event.preventDefault()\<close> acts on the event only and is left out.\<close>

definition FreeCameraController_onMouseDown ::
    "free_camera_controller \<Rightarrow> mouse_event \<Rightarrow> free_camera_controller" where
  "FreeCameraController_onMouseDown s event =
     (if \<not> fc_isEnabled s then s
      else s\<lparr>fc_isMouseDown := True, fc_mouseButton := me_button event,
             fc_lastMousePosition := (me_clientX event, me_clientY event)\<rparr>)"

definition FreeCameraController_pan ::
    "three_math \<Rightarrow> free_camera_controller \<Rightarrow> real \<Rightarrow> real \<Rightarrow> free_camera_controller" where
  "FreeCameraController_pan three s deltaX deltaY =
     (let panLeft = Vector3_multiplyScalar
                      (Vector3_setFromMatrixColumn three (cam_matrix (fc_camera s)) 0)
                      (- deltaX * fc_panSpeed s * 0.01);
          panUp = Vector3_multiplyScalar
                    (Vector3_setFromMatrixColumn three (cam_matrix (fc_camera s)) 1)
                    (deltaY * fc_panSpeed s * 0.01);
          panOffset = Vector3_add panLeft panUp
      in s\<lparr>fc_target := Vector3_add (fc_target s) panOffset\<rparr>)"

definition FreeCameraController_onMouseMove ::
    "three_math \<Rightarrow> free_camera_controller \<Rightarrow> mouse_event \<Rightarrow> free_camera_controller" where
  "FreeCameraController_onMouseMove three s event =
     (if \<not> fc_isEnabled s \<or> \<not> fc_isMouseDown s then s
      else
        (let deltaX = me_clientX event - fst (fc_lastMousePosition s);
             deltaY = me_clientY event - snd (fc_lastMousePosition s);
             s1 =
               (if fc_mouseButton s = 0
                then (if fc_enableRotate s
                      then (let st = fc_sphericalTarget s;
                                theta1 = sph_theta st - deltaX * fc_rotateSpeed s * 0.01;
                                phi1 = sph_phi st + deltaY * fc_rotateSpeed s * 0.01;
                                phi2 = max (fc_minPolarAngle s) (min (fc_maxPolarAngle s) phi1)
                            in s\<lparr>fc_sphericalTarget := st\<lparr>sph_theta := theta1, sph_phi := phi2\<rparr>\<rparr>)
                      else s)
                else if fc_mouseButton s = 2
                then (if fc_enablePan s then FreeCameraController_pan three s deltaX deltaY else s)
                else if fc_mouseButton s = 1
                then (if fc_enableZoom s
                      then (let td = fc_targetDistance s + deltaY * fc_zoomSpeed s * 0.05
                            in s\<lparr>fc_targetDistance :=
                                    max (fc_minDistance s) (min (fc_maxDistance s) td)\<rparr>)
                      else s)
                else s)
         in s1\<lparr>fc_lastMousePosition := (me_clientX event, me_clientY event)\<rparr>))"

definition FreeCameraController_onMouseUp ::
    "free_camera_controller \<Rightarrow> mouse_event \<Rightarrow> free_camera_controller" where
  "FreeCameraController_onMouseUp s event =
     (if \<not> fc_isEnabled s then s else s\<lparr>fc_isMouseDown := False\<rparr>)"

definition FreeCameraController_onWheel ::
    "free_camera_controller \<Rightarrow> wheel_event \<Rightarrow> free_camera_controller" where
  "FreeCameraController_onWheel s event =
     (if \<not> fc_isEnabled s \<or> \<not> fc_enableZoom s then s
      else (let td = fc_targetDistance s + we_deltaY event * fc_zoomSpeed s * 0.01
            in s\<lparr>fc_targetDistance := max (fc_minDistance s) (min (fc_maxDistance s) td)\<rparr>))"

definition FreeCameraController_onKeyDown ::
    "free_camera_controller \<Rightarrow> keyboard_event \<Rightarrow> free_camera_controller" where
  "FreeCameraController_onKeyDown s event =
     (if \<not> fc_isEnabled s \<or> \<not> fc_enableKeys s then s
      else s\<lparr>fc_keys := (fc_keys s)(ke_code event \<mapsto> True)\<rparr>)"

definition FreeCameraController_onKeyUp ::
    "free_camera_controller \<Rightarrow> keyboard_event \<Rightarrow> free_camera_controller" where
  "FreeCameraController_onKeyUp s event =
     (if \<not> fc_isEnabled s \<or> \<not> fc_enableKeys s then s
      else s\<lparr>fc_keys := (fc_keys s)(ke_code event \<mapsto> False)\<rparr>)"

definition FreeCameraController_onContextMenu ::
    "free_camera_controller \<Rightarrow> free_camera_controller" where
  "FreeCameraController_onContextMenu s = s"

text \<open>A key is down when its entry is \<^verbatim>\<open>true\<close>; an absent entry is falsy.\<close>

definition keyDown :: "free_camera_controller \<Rightarrow> string \<Rightarrow> bool" where
  "keyDown s code = (fc_keys s code = Some True)"

definition keyboardMoveVector :: "free_camera_controller \<Rightarrow> vec3" where
  "keyboardMoveVector s =
     (let m0 = Vec3 0 0 0;
          m1 = (if keyDown s ''KeyW'' then Vec3 (vx m0) (vy m0) (vz m0 - fc_keyMoveSpeed s) else m0);
          m2 = (if keyDown s ''KeyS'' then Vec3 (vx m1) (vy m1) (vz m1 + fc_keyMoveSpeed s) else m1);
          m3 = (if keyDown s ''KeyA'' then Vec3 (vx m2 - fc_keyMoveSpeed s) (vy m2) (vz m2) else m2);
          m4 = (if keyDown s ''KeyD'' then Vec3 (vx m3 + fc_keyMoveSpeed s) (vy m3) (vz m3) else m3);
          m5 = (if keyDown s ''KeyQ'' then Vec3 (vx m4) (vy m4 - fc_keyMoveSpeed s) (vz m4) else m4)
      in if keyDown s ''KeyE'' then Vec3 (vx m5) (vy m5 + fc_keyMoveSpeed s) (vz m5) else m5)"

definition FreeCameraController_updateKeyboardMovement ::
    "three_math \<Rightarrow> free_camera_controller \<Rightarrow> free_camera_controller" where
  "FreeCameraController_updateKeyboardMovement three s =
     (if \<not> fc_enableKeys s then s
      else (let moveVector = keyboardMoveVector s
            in if Vector3_length moveVector > 0
               then s\<lparr>fc_target :=
                        Vector3_add (fc_target s)
                          (Vector3_applyQuaternion three moveVector
                             (cam_quaternion (fc_camera s)))\<rparr>
               else s))"

definition FreeCameraController_enable :: "free_camera_controller \<Rightarrow> free_camera_controller" where
  "FreeCameraController_enable s =
     (if fc_isEnabled s then s
      else (let s1 = s\<lparr>fc_isEnabled := True,
                       fc_domListeners :=
                         fc_domListeners s \<union> {Mousedown, Mousemove, Mouseup, Wheel, Contextmenu}\<rparr>
            in if fc_enableKeys s1
               then s1\<lparr>fc_windowListeners := fc_windowListeners s1 \<union> {Keydown, Keyup}\<rparr>
               else s1))"

definition FreeCameraController_disable :: "free_camera_controller \<Rightarrow> free_camera_controller" where
  "FreeCameraController_disable s =
     (if \<not> fc_isEnabled s then s
      else (let s1 = s\<lparr>fc_isEnabled := False,
                       fc_domListeners :=
                         fc_domListeners s - {Mousedown, Mousemove, Mouseup, Wheel, Contextmenu}\<rparr>
            in if fc_enableKeys s1
               then s1\<lparr>fc_windowListeners := fc_windowListeners s1 - {Keydown, Keyup}\<rparr>
               else s1))"

definition dampingFactor :: real where
  "dampingFactor = 0.1"

definition FreeCameraController_update ::
    "three_math \<Rightarrow> free_camera_controller \<Rightarrow> free_camera_controller" where
  "FreeCameraController_update three s =
     (if \<not> fc_isEnabled s then s
      else
        (let s1 = FreeCameraController_updateKeyboardMovement three s;
             sp = fc_spherical s1;
             theta1 = sph_theta sp + (sph_theta (fc_sphericalTarget s1) - sph_theta sp) * dampingFactor;
             phi1 = sph_phi sp + (sph_phi (fc_sphericalTarget s1) - sph_phi sp) * dampingFactor;
             distance1 = fc_distance s1 + (fc_targetDistance s1 - fc_distance s1) * dampingFactor;
             s2 = s1\<lparr>fc_spherical := sp\<lparr>sph_theta := theta1, sph_phi := phi1\<rparr>,
                     fc_distance := distance1\<rparr>;
             s3 = s2\<lparr>fc_spherical := (fc_spherical s2)\<lparr>sph_radius := fc_distance s2\<rparr>\<rparr>;
             offset = Vector3_setFromSpherical three (fc_spherical s3);
             cam1 = (fc_camera s3)\<lparr>cam_position := Vector3_add (fc_target s3) offset\<rparr>
         in s3\<lparr>fc_camera := Camera_lookAt three cam1 (fc_target s3)\<rparr>))"

definition FreeCameraController_setTarget ::
    "free_camera_controller \<Rightarrow> real \<Rightarrow> real \<Rightarrow> real \<Rightarrow> free_camera_controller" where
  "FreeCameraController_setTarget s x y z = s\<lparr>fc_target := Vec3 x y z\<rparr>"

definition FreeCameraController_focusOn ::
    "three_math \<Rightarrow> free_camera_controller \<Rightarrow> vec3 \<Rightarrow> real option \<Rightarrow> free_camera_controller" where
  "FreeCameraController_focusOn three s position distance =
     (let s1 = s\<lparr>fc_target := position\<rparr>;
          s2 = (case distance of
                  Some d \<Rightarrow> s1\<lparr>fc_targetDistance := d, fc_distance := d\<rparr>
                | None \<Rightarrow> s1)
      in FreeCameraController_updateSphericalFromCamera three s2)"

definition FreeCameraController_isEnabled :: "free_camera_controller \<Rightarrow> bool" where
  "FreeCameraController_isEnabled s = fc_isEnabled s"

definition FreeCameraController_dispose :: "free_camera_controller \<Rightarrow> free_camera_controller" where
  "FreeCameraController_dispose s = FreeCameraController_disable s"

subsection \<open>One damped step\<close>

text \<open>
  What a step from \<open>current\<close> to \<open>current'\<close> towards \<open>target\<close> has to satisfy
  to be a damped step: it moves by the damping factor times the delta, leaves one minus
  the damping factor times the delta, and ends between where it started and the target.
\<close>

definition damped_step :: "real \<Rightarrow> real \<Rightarrow> real \<Rightarrow> bool" where
  "damped_step current target current' \<longleftrightarrow>
     current' - current = dampingFactor * (target - current)
     \<and> target - current' = (1 - dampingFactor) * (target - current)
     \<and> (current \<le> target \<longrightarrow> current \<le> current' \<and> current' \<le> target)
     \<and> (target \<le> current \<longrightarrow> target \<le> current' \<and> current' \<le> current)"

subsection \<open>A small rig to run the controller on\<close>

text \<open>
  A stand-in for the library functions (any would do), a camera five units above the
  origin, and the controller built on them.
\<close>

definition example_three :: three_math where
  "example_three =
     \<lparr> Spherical_setFromVector3 = (\<lambda>v. \<lparr>sph_radius = 5, sph_phi = 1, sph_theta = 0\<rparr>),
       Vector3_setFromSpherical = (\<lambda>sp. Vec3 0 (sph_radius sp) 0),
       Vector3_setFromMatrixColumn = (\<lambda>m i. Vec3 0 0 0),
       Vector3_applyQuaternion = (\<lambda>v q. v),
       Camera_lookAt = (\<lambda>cam t. cam) \<rparr>"

definition example_camera :: camera where
  "example_camera =
     \<lparr> cam_position = Vec3 0 5 0, cam_quaternion = Quaternion 0 0 0 1, cam_matrix = [] \<rparr>"

definition example_controller :: free_camera_controller where
  "example_controller =
     FreeCameraController_constructor example_three example_camera 0 None None"

section \<open>Properties of the gizmo and of the selection policy\<close>

lemmas tc_defs =
  TransformControls_new_def TransformControls_setMode_def TransformControls_setSize_def
  TransformControls_setSpace_def TransformControls_getSpace_def TransformControls_attach_def
  TransformControls_detach_def TransformControls_addEventListener_def
  TransformControls_removeEventListener_def TransformControls_dispose_def
  Scene_add_def Scene_remove_def

lemmas gz_defs =
  Gizmo3DController_constructor_def Gizmo3DController_setObject_def
  Gizmo3DController_setMode_def Gizmo3DController_toggleSpace_def
  Gizmo3DController_setEnabled_def Gizmo3DController_isDragging_def
  Gizmo3DController_getCurrentMode_def Gizmo3DController_dispose_def

lemmas si_defs =
  SelectedInstances3D_constructor_def SelectedInstances3D_updateSelection_def
  SelectedInstances3D_setMode_def SelectedInstances3D_toggleSpace_def
  SelectedInstances3D_setEnabled_def SelectedInstances3D_isDragging_def
  SelectedInstances3D_getCurrentMode_def SelectedInstances3D_getCurrentSpace_def
  SelectedInstances3D_isAvailable_def SelectedInstances3D_dispose_def

subsection \<open>The invariant behind the attachment policy\<close>

text \<open>
  Every method keeps the attachment policy, so every reachable state satisfies it.
  \<^verbatim>\<open>setEnabled(true)\<close> relies on it: it re-attaches whatever node the controller
  has recorded.
\<close>

lemma attach_inv_constructor: "attach_inv (SelectedInstances3D_constructor r c sc)"
  by (simp add: attach_inv_def si_defs gz_defs tc_defs Let_def split: option.splits)

lemma attach_inv_updateSelection:
  "attach_inv s \<Longrightarrow> attach_inv (SelectedInstances3D_updateSelection s insts m)"
  by (auto simp: attach_inv_def si_defs gz_defs tc_defs Let_def split: option.splits)

lemma attach_inv_setMode: "attach_inv s \<Longrightarrow> attach_inv (SelectedInstances3D_setMode s m)"
  by (auto simp: attach_inv_def si_defs gz_defs tc_defs Let_def split: option.splits)

lemma attach_inv_toggleSpace:
  "attach_inv s \<Longrightarrow> SelectedInstances3D_toggleSpace s = Inr s' \<Longrightarrow> attach_inv s'"
  by (auto simp: attach_inv_def si_defs gz_defs tc_defs Let_def split: option.splits sum.splits)

lemma attach_inv_setEnabled:
  "attach_inv s \<Longrightarrow> attach_inv (SelectedInstances3D_setEnabled s enabled)"
  by (auto simp: attach_inv_def si_defs gz_defs tc_defs Let_def split: option.splits if_splits)

lemma attach_inv_dispose: "attach_inv s \<Longrightarrow> attach_inv (SelectedInstances3D_dispose s)"
  by (auto simp: attach_inv_def si_defs gz_defs tc_defs Let_def split: option.splits)

lemma reachable_attach_inv: "reachable s \<Longrightarrow> attach_inv s"
proof (induction rule: reachable.induct)
  case (r_toggleSpace s s')
  then show ?case by (simp add: attach_inv_toggleSpace)
next
  case (r_drag s g d)
  then show ?case by (simp add: attach_inv_def)
qed (simp_all add: attach_inv_constructor attach_inv_updateSelection attach_inv_setMode
       attach_inv_setEnabled attach_inv_dispose)

lemma attach_inv_attachedObject:
  assumes "attach_inv s" and "SelectedInstances3D_isAvailable s"
  shows "attachedObject s =
           (if si_enabled s \<and> length (si_selectedInstances s) = 1
            then Map_get (si_instanceToObjectMap s) (si_selectedInstances s ! 0)
            else None)"
  using assms
  by (auto simp: attach_inv_def attachedObject_def SelectedInstances3D_isAvailable_def
           split: option.splits)

lemma isAvailable_updateSelection:
  "SelectedInstances3D_isAvailable (SelectedInstances3D_updateSelection s insts m) =
     SelectedInstances3D_isAvailable s"
  by (simp add: SelectedInstances3D_isAvailable_def SelectedInstances3D_updateSelection_def
        Let_def split: option.splits)

lemma isAvailable_setEnabled:
  "SelectedInstances3D_isAvailable (SelectedInstances3D_setEnabled s enabled) =
     SelectedInstances3D_isAvailable s"
  by (simp add: SelectedInstances3D_isAvailable_def SelectedInstances3D_setEnabled_def
        Let_def split: option.splits)

text \<open>
  C1. In a state with a gizmo controller, a call \<^verbatim>\<open>updateSelection(instances, map)\<close>
  stores its arguments and leaves the widget attached to the node \<^verbatim>\<open>map\<close> has for
  the sole element of \<^verbatim>\<open>instances\<close> if sync is enabled, \<^verbatim>\<open>instances\<close> has exactly
  one element and \<^verbatim>\<open>map\<close> has a node for it, and detached (attached to null)
  otherwise; a call \<^verbatim>\<open>setEnabled(enabled)\<close> stores the flag and leaves the widget
  attached to the node the stored map has for the sole stored instance if \<^verbatim>\<open>enabled\<close>
  is true, exactly one instance is stored and the map has a node for it, and detached
  otherwise. So after either call the attached node is the mapped node of the sole
  selected instance exactly when sync is enabled, one instance is selected and the map
  has a node for it, and null for every other combination.
\<close>

theorem C1_attachment_policy:
  assumes "reachable s"
      and "SelectedInstances3D_isAvailable s"
  shows "attachedObject (SelectedInstances3D_updateSelection s insts m) =
           (if si_enabled s \<and> length insts = 1 then Map_get m (insts ! 0) else None)
       \<and> si_selectedInstances (SelectedInstances3D_updateSelection s insts m) = insts
       \<and> si_instanceToObjectMap (SelectedInstances3D_updateSelection s insts m) = m
       \<and> si_enabled (SelectedInstances3D_updateSelection s insts m) = si_enabled s
       \<and> attachedObject (SelectedInstances3D_setEnabled s enabled) =
           (if enabled \<and> length (si_selectedInstances s) = 1
            then Map_get (si_instanceToObjectMap s) (si_selectedInstances s ! 0)
            else None)
       \<and> si_enabled (SelectedInstances3D_setEnabled s enabled) = enabled
       \<and> si_selectedInstances (SelectedInstances3D_setEnabled s enabled) = si_selectedInstances s
       \<and> si_instanceToObjectMap (SelectedInstances3D_setEnabled s enabled) =
           si_instanceToObjectMap s"
proof -
  let ?u = "SelectedInstances3D_updateSelection s insts m"
  let ?e = "SelectedInstances3D_setEnabled s enabled"
  have u1: "si_selectedInstances ?u = insts"
    and u2: "si_instanceToObjectMap ?u = m"
    and u3: "si_enabled ?u = si_enabled s"
    by (simp_all add: SelectedInstances3D_updateSelection_def Let_def split: option.splits)
  have e1: "si_enabled ?e = enabled"
    and e2: "si_selectedInstances ?e = si_selectedInstances s"
    and e3: "si_instanceToObjectMap ?e = si_instanceToObjectMap s"
    by (simp_all add: SelectedInstances3D_setEnabled_def Let_def split: option.splits)
  have ru: "reachable ?u"
    using assms(1) by (rule reachable.r_updateSelection)
  have re: "reachable ?e"
    using assms(1) by (rule reachable.r_setEnabled)
  have au: "SelectedInstances3D_isAvailable ?u"
    using assms(2) by (simp add: isAvailable_updateSelection)
  have ae: "SelectedInstances3D_isAvailable ?e"
    using assms(2) by (simp add: isAvailable_setEnabled)
  have "attachedObject ?u =
           (if si_enabled ?u \<and> length (si_selectedInstances ?u) = 1
            then Map_get (si_instanceToObjectMap ?u) (si_selectedInstances ?u ! 0) else None)"
    using reachable_attach_inv [OF ru] au by (rule attach_inv_attachedObject)
  then have pu: "attachedObject ?u =
           (if si_enabled s \<and> length insts = 1 then Map_get m (insts ! 0) else None)"
    by (simp only: u1 u2 u3)
  have "attachedObject ?e =
           (if si_enabled ?e \<and> length (si_selectedInstances ?e) = 1
            then Map_get (si_instanceToObjectMap ?e) (si_selectedInstances ?e ! 0) else None)"
    using reachable_attach_inv [OF re] ae by (rule attach_inv_attachedObject)
  then have pe: "attachedObject ?e =
           (if enabled \<and> length (si_selectedInstances s) = 1
            then Map_get (si_instanceToObjectMap s) (si_selectedInstances s ! 0) else None)"
    by (simp only: e1 e2 e3)
  from pu u1 u2 u3 pe e1 e2 e3 show ?thesis
    by (intro conjI)
qed

theorem C1_attachment_policy_witness:
  "reachable example_selection
   \<and> SelectedInstances3D_isAvailable example_selection
   \<and> attachedObject example_selection = Some 7
   \<and> attachedObject (SelectedInstances3D_updateSelection example_selection [5] [(5, 9)]) = Some 9
   \<and> attachedObject
       (SelectedInstances3D_updateSelection example_selection [5, 6] [(5, 7), (6, 8)]) = None
   \<and> attachedObject (SelectedInstances3D_updateSelection example_selection [] [(5, 7)]) = None
   \<and> attachedObject (SelectedInstances3D_updateSelection example_selection [6] [(5, 7)]) = None
   \<and> attachedObject (SelectedInstances3D_setEnabled example_selection False) = None
   \<and> attachedObject (SelectedInstances3D_setEnabled example_selection True) = Some 7"
proof -
  let ?s0 = "SelectedInstances3D_setEnabled
               (SelectedInstances3D_constructor (Some 0) (Some 0) (Some 0)) True"
  have r0: "reachable ?s0"
    by (rule reachable.r_setEnabled) (rule reachable.r_constructor)
  have a0: "SelectedInstances3D_isAvailable ?s0"
    by (simp add: si_defs Let_def)
  have e0: "si_enabled ?s0"
    by (simp add: si_defs Let_def)
  have r: "reachable example_selection"
    unfolding example_selection_def using r0 by (rule reachable.r_updateSelection)
  have a: "SelectedInstances3D_isAvailable example_selection"
    unfolding example_selection_def using a0 by (simp add: isAvailable_updateSelection)
  from C1_attachment_policy [OF r0 a0, of "[5]" "[(5, 7)]"] e0
  have f: "attachedObject example_selection = Some 7 \<and>
           si_enabled example_selection \<and>
           si_selectedInstances example_selection = [5] \<and>
           si_instanceToObjectMap example_selection = [(5, 7)]"
    by (simp add: example_selection_def Map_get_def)
  from C1_attachment_policy [OF r a, of "[5]" "[(5, 9)]" False] f
  have 1: "attachedObject (SelectedInstances3D_updateSelection example_selection [5] [(5, 9)]) =
             Some 9
           \<and> attachedObject (SelectedInstances3D_setEnabled example_selection False) = None"
    by (simp add: Map_get_def)
  from C1_attachment_policy [OF r a, of "[5, 6]" "[(5, 7), (6, 8)]" True] f
  have 2: "attachedObject
             (SelectedInstances3D_updateSelection example_selection [5, 6] [(5, 7), (6, 8)]) = None
           \<and> attachedObject (SelectedInstances3D_setEnabled example_selection True) = Some 7"
    by (simp add: Map_get_def)
  from C1_attachment_policy [OF r a, of "[]" "[(5, 7)]" True]
  have 3: "attachedObject (SelectedInstances3D_updateSelection example_selection [] [(5, 7)]) =
             None"
    by simp
  from C1_attachment_policy [OF r a, of "[6]" "[(5, 7)]" True] f
  have 4: "attachedObject (SelectedInstances3D_updateSelection example_selection [6] [(5, 7)]) =
             None"
    by (simp add: Map_get_def)
  from r a f 1 2 3 4 show ?thesis
    by simp
qed

subsection \<open>Toggling the space\<close>

text \<open>
  Whatever its state, the gizmo controller's \<^verbatim>\<open>toggleSpace()\<close> throws, and with a
  gizmo controller so do \<^verbatim>\<open>toggleSpace()\<close> and \<^verbatim>\<open>getCurrentSpace()\<close> of
  \<^verbatim>\<open>SelectedInstances3D\<close>.
\<close>

lemma Gizmo3DController_toggleSpace_throws:
  "Gizmo3DController_toggleSpace g = Inl TypeError"
  by (simp add: Gizmo3DController_toggleSpace_def TransformControls_getSpace_def)

lemma SelectedInstances3D_toggleSpace_throws:
  assumes "SelectedInstances3D_isAvailable s"
  shows "SelectedInstances3D_toggleSpace s = Inl TypeError"
    and "SelectedInstances3D_getCurrentSpace s = Inl TypeError"
  using assms
  by (auto simp: SelectedInstances3D_isAvailable_def SelectedInstances3D_toggleSpace_def
        SelectedInstances3D_getCurrentSpace_def Gizmo3DController_toggleSpace_throws
        TransformControls_getSpace_def)

text \<open>
  C7 fails on the code. The claim: \<^verbatim>\<open>toggleSpace()\<close> is an involution on the gizmo's
  space, and a single call changes local to world and world to local. The code: on the
  gizmo controller just built, whose space is local, \<^verbatim>\<open>toggleSpace()\<close> throws
  \<^verbatim>\<open>TypeError\<close> at \<^verbatim>\<open>getSpace()\<close> and never reaches \<^verbatim>\<open>setSpace\<close>, so the space
  stays local; with a full 3D context \<^verbatim>\<open>toggleSpace()\<close> and
  \<^verbatim>\<open>getCurrentSpace()\<close> of \<^verbatim>\<open>SelectedInstances3D\<close> throw as well.
\<close>

theorem C7_toggleSpace_throws:
  "tc_space (gz_transformControls (Gizmo3DController_constructor 0 0 0)) = Local
   \<and> Gizmo3DController_toggleSpace (Gizmo3DController_constructor 0 0 0) = Inl TypeError
   \<and> SelectedInstances3D_isAvailable
       (SelectedInstances3D_constructor (Some 0) (Some 0) (Some 0))
   \<and> SelectedInstances3D_toggleSpace
       (SelectedInstances3D_constructor (Some 0) (Some 0) (Some 0)) = Inl TypeError
   \<and> SelectedInstances3D_getCurrentSpace
       (SelectedInstances3D_constructor (Some 0) (Some 0) (Some 0)) = Inl TypeError"
proof -
  let ?s = "SelectedInstances3D_constructor (Some 0) (Some 0) (Some 0)"
  have l: "tc_space (gz_transformControls (Gizmo3DController_constructor 0 0 0)) = Local"
    by (simp add: Gizmo3DController_constructor_def tc_defs Let_def)
  have a: "SelectedInstances3D_isAvailable ?s"
    by (simp add: SelectedInstances3D_isAvailable_def SelectedInstances3D_constructor_def)
  from l a Gizmo3DController_toggleSpace_throws SelectedInstances3D_toggleSpace_throws [OF a]
  show ?thesis
    by simp
qed

subsection \<open>The recorded node across enable/disable cycles\<close>

text \<open>
  C10. \<^verbatim>\<open>Gizmo3DController\<close> remembers the node passed to \<^verbatim>\<open>setObject\<close> across
  enable/disable cycles: \<^verbatim>\<open>setObject(obj)\<close> while disabled records the node and
  leaves the widget detached, \<^verbatim>\<open>setEnabled(false)\<close> detaches the widget and keeps the
  recorded node, and a following \<^verbatim>\<open>setEnabled(true)\<close> attaches the widget to the
  recorded node again.
\<close>


theorem C10_gizmo_remembers_object:
  "(\<not> gz_isEnabled g \<longrightarrow>
      gz_currentObject (Gizmo3DController_setObject g (Some ob)) = Some ob \<and>
      tc_object (gz_transformControls (Gizmo3DController_setObject g (Some ob))) = None)
   \<and> gz_currentObject (Gizmo3DController_setEnabled g False) = gz_currentObject g
   \<and> tc_object (gz_transformControls (Gizmo3DController_setEnabled g False)) = None
   \<and> gz_currentObject (Gizmo3DController_setEnabled g True) = gz_currentObject g
   \<and> tc_object (gz_transformControls
        (Gizmo3DController_setEnabled (Gizmo3DController_setEnabled g False) True)) =
       gz_currentObject g"
proof (intro conjI impI)
  assume "\<not> gz_isEnabled g"
  then show "gz_currentObject (Gizmo3DController_setObject g (Some ob)) = Some ob"
    and "tc_object (gz_transformControls (Gizmo3DController_setObject g (Some ob))) = None"
    by (simp_all add: Gizmo3DController_setObject_def TransformControls_detach_def Let_def)
next
  show "gz_currentObject (Gizmo3DController_setEnabled g False) = gz_currentObject g"
    and "tc_object (gz_transformControls (Gizmo3DController_setEnabled g False)) = None"
    by (simp_all add: Gizmo3DController_setEnabled_def TransformControls_detach_def Let_def)
next
  show "gz_currentObject (Gizmo3DController_setEnabled g True) = gz_currentObject g"
    by (simp add: Gizmo3DController_setEnabled_def Let_def split: option.splits)
next
  show "tc_object (gz_transformControls
          (Gizmo3DController_setEnabled (Gizmo3DController_setEnabled g False) True)) =
        gz_currentObject g"
    by (simp add: Gizmo3DController_setEnabled_def TransformControls_detach_def
          TransformControls_attach_def Let_def split: option.splits)
qed

theorem C10_gizmo_remembers_object_witness:
  "\<not> gz_isEnabled (Gizmo3DController_constructor 0 0 0)
   \<and> gz_currentObject (Gizmo3DController_setObject (Gizmo3DController_constructor 0 0 0) (Some 7))
       = Some 7
   \<and> tc_object (gz_transformControls
        (Gizmo3DController_setObject (Gizmo3DController_constructor 0 0 0) (Some 7))) = None
   \<and> tc_object (gz_transformControls
        (Gizmo3DController_setEnabled
           (Gizmo3DController_setEnabled
              (Gizmo3DController_setObject (Gizmo3DController_constructor 0 0 0) (Some 7))
              False) True)) = Some 7"
proof -
  let ?g = "Gizmo3DController_constructor 0 0 0"
  have d: "\<not> gz_isEnabled ?g"
    by (simp add: gz_defs Let_def)
  from C10_gizmo_remembers_object [of ?g 7] d
  have 1: "gz_currentObject (Gizmo3DController_setObject ?g (Some 7)) = Some 7"
    and 2: "tc_object (gz_transformControls (Gizmo3DController_setObject ?g (Some 7))) = None"
    by simp_all
  from C10_gizmo_remembers_object [of "Gizmo3DController_setObject ?g (Some 7)" 7] 1
  have "tc_object (gz_transformControls
          (Gizmo3DController_setEnabled
             (Gizmo3DController_setEnabled (Gizmo3DController_setObject ?g (Some 7)) False)
             True)) = Some 7"
    by simp
  with d 1 2 show ?thesis by simp
qed

subsection \<open>Without a 3D context\<close>

text \<open>
  Without a renderer the constructor builds no gizmo controller, and yet
  \<^verbatim>\<open>setMode\<close> is not a no-op: it stores the mode before it looks for the
  controller, and \<^verbatim>\<open>getCurrentMode()\<close> returns the stored mode.
\<close>

theorem C5_setMode_counterexample:
  "\<not> SelectedInstances3D_isAvailable (SelectedInstances3D_constructor None (Some 0) (Some 0))
   \<and> SelectedInstances3D_getCurrentMode
       (SelectedInstances3D_constructor None (Some 0) (Some 0)) = Translate
   \<and> SelectedInstances3D_getCurrentMode
       (SelectedInstances3D_setMode
          (SelectedInstances3D_constructor None (Some 0) (Some 0)) Rotate) = Rotate
   \<and> SelectedInstances3D_setMode (SelectedInstances3D_constructor None (Some 0) (Some 0)) Rotate
       \<noteq> SelectedInstances3D_constructor None (Some 0) (Some 0)"
  by (simp add: si_defs Let_def)

text \<open>
  C5 (amended). When \<^verbatim>\<open>SelectedInstances3D\<close> is constructed without a full 3D
  context (any of renderer, camera, scene is null), \<^verbatim>\<open>isAvailable()\<close> returns
  false. In any state without a gizmo controller, \<^verbatim>\<open>toggleSpace\<close> returns and changes nothing,
  \<^verbatim>\<open>isDragging()\<close> is false, \<^verbatim>\<open>getCurrentSpace()\<close> is local and
  \<^verbatim>\<open>getCurrentMode()\<close> is the stored mode; \<^verbatim>\<open>updateSelection\<close> stores the
  instances and the map, \<^verbatim>\<open>setMode\<close> stores the mode, \<^verbatim>\<open>setEnabled\<close> stores the
  flag and \<^verbatim>\<open>dispose\<close> empties the map, and each of them changes nothing else, so
  \<^verbatim>\<open>isAvailable()\<close> stays false.
\<close>

theorem C5_unavailable_operations:
  "(threeRenderer = None \<or> threeCamera = None \<or> threeScene = None \<longrightarrow>
      \<not> SelectedInstances3D_isAvailable
          (SelectedInstances3D_constructor threeRenderer threeCamera threeScene))
   \<and> (\<not> SelectedInstances3D_isAvailable s \<longrightarrow>
        SelectedInstances3D_toggleSpace s = Inr s
      \<and> \<not> SelectedInstances3D_isDragging s
      \<and> SelectedInstances3D_getCurrentSpace s = Inr Local
      \<and> SelectedInstances3D_getCurrentMode s = si_currentMode s
      \<and> SelectedInstances3D_updateSelection s insts m =
          s\<lparr>si_selectedInstances := insts, si_instanceToObjectMap := m\<rparr>
      \<and> SelectedInstances3D_setMode s md = s\<lparr>si_currentMode := md\<rparr>
      \<and> SelectedInstances3D_setEnabled s enabled = s\<lparr>si_enabled := enabled\<rparr>
      \<and> SelectedInstances3D_dispose s = s\<lparr>si_instanceToObjectMap := []\<rparr>)"
proof (intro conjI impI)
  assume "threeRenderer = None \<or> threeCamera = None \<or> threeScene = None"
  then show "\<not> SelectedInstances3D_isAvailable
               (SelectedInstances3D_constructor threeRenderer threeCamera threeScene)"
    by (auto simp: SelectedInstances3D_isAvailable_def SelectedInstances3D_constructor_def
          split: option.splits)
next
  assume "\<not> SelectedInstances3D_isAvailable s"
  then have g: "si_gizmoController s = None"
    by (simp add: SelectedInstances3D_isAvailable_def)
  show "SelectedInstances3D_toggleSpace s = Inr s"
    by (simp add: SelectedInstances3D_toggleSpace_def g)
  show "\<not> SelectedInstances3D_isDragging s"
    by (simp add: SelectedInstances3D_isDragging_def g)
  show "SelectedInstances3D_getCurrentSpace s = Inr Local"
    by (simp add: SelectedInstances3D_getCurrentSpace_def g)
  show "SelectedInstances3D_getCurrentMode s = si_currentMode s"
    by (simp add: SelectedInstances3D_getCurrentMode_def)
  show "SelectedInstances3D_updateSelection s insts m =
          s\<lparr>si_selectedInstances := insts, si_instanceToObjectMap := m\<rparr>"
    by (simp add: SelectedInstances3D_updateSelection_def g)
  show "SelectedInstances3D_setMode s md = s\<lparr>si_currentMode := md\<rparr>"
    by (simp add: SelectedInstances3D_setMode_def g)
  show "SelectedInstances3D_setEnabled s enabled = s\<lparr>si_enabled := enabled\<rparr>"
    by (simp add: SelectedInstances3D_setEnabled_def g)
  show "SelectedInstances3D_dispose s = s\<lparr>si_instanceToObjectMap := []\<rparr>"
    by (simp add: SelectedInstances3D_dispose_def g)
qed

theorem C5_unavailable_operations_witness:
  "\<not> SelectedInstances3D_isAvailable (SelectedInstances3D_constructor None (Some 0) (Some 0))
   \<and> SelectedInstances3D_toggleSpace (SelectedInstances3D_constructor None (Some 0) (Some 0)) =
       Inr (SelectedInstances3D_constructor None (Some 0) (Some 0))
   \<and> SelectedInstances3D_getCurrentSpace
       (SelectedInstances3D_constructor None (Some 0) (Some 0)) = Inr Local
   \<and> si_enabled (SelectedInstances3D_setEnabled
        (SelectedInstances3D_constructor None (Some 0) (Some 0)) True)"
proof -
  let ?s = "SelectedInstances3D_constructor None (Some 0) (Some 0)"
  from C5_unavailable_operations [of None "Some 0" "Some 0" ?s _ _ _ True]
  have u: "\<not> SelectedInstances3D_isAvailable ?s"
    by simp
  with C5_unavailable_operations [of None "Some 0" "Some 0" ?s _ _ _ True]
  show ?thesis
    by simp
qed

section \<open>Properties of the completed-edit handler\<close>

lemmas instance_defs =
  getWidth_def getHeight_def getDepth_def setX_def setY_def setZ_def setAngle_def
  setRotationX_def setRotationY_def setWidth_def setHeight_def setDepth_def
  onInstanceTransformed_def

lemma example_selection_find:
  "SelectedInstances3D_findInstanceForObject example_selection (example_world ud inst) 7 =
     Some (Some 5)"
  by (simp add: SelectedInstances3D_findInstanceForObject_def example_selection_def si_defs
        Map_get_def Let_def)

subsection \<open>The lookup from a node to its instance\<close>

lemma isChildOf_loop_None: "isChildOf_loop objs None parent = Some False"
  by (subst isChildOf_loop.simps) simp

lemma isChildOf_loop_Some:
  "isChildOf_loop objs (Some cur) parent =
     (if cur = parent then Some True else isChildOf_loop objs (obj_parent (objs cur)) parent)"
  by (subst isChildOf_loop.simps) simp

text \<open>
  On a scene graph whose parent references do not loop, the ancestor walk and the lookup
  always return.
\<close>

lemma isChildOf_loop_returns:
  assumes "wf {(p, c). obj_parent (objs c) = Some p}"
  shows "\<exists>b. isChildOf_loop objs current parent = Some b"
proof -
  have "\<exists>b. isChildOf_loop objs (Some c) parent = Some b" for c
    using assms
  proof (induction c rule: wf_induct_rule)
    case (less c)
    show ?case
    proof (cases "obj_parent (objs c)")
      case None
      then show ?thesis
        by (auto simp: isChildOf_loop_Some isChildOf_loop_None)
    next
      case (Some p)
      with less.IH [of p] show ?thesis
        by (auto simp: isChildOf_loop_Some)
    qed
  qed
  then show ?thesis
    by (cases current) (auto simp: isChildOf_loop_None)
qed

lemma findInstanceForObject_loop_returns:
  assumes "wf {(p, c). obj_parent (objects w c) = Some p}"
  shows "\<exists>r. findInstanceForObject_loop w m object = Some r"
proof (induction m)
  case Nil
  show ?case by simp
next
  case (Cons e m)
  obtain inst obj where e: "e = (inst, obj)" by (cases e)
  from isChildOf_loop_returns [OF assms] obtain b
    where "SelectedInstances3D_isChildOf w obj object = Some b"
    unfolding SelectedInstances3D_isChildOf_def by blast
  with Cons e show ?case by (cases b) auto
qed

text \<open>
  The lookup returns null exactly when no entry of the map matches the node: not the
  entry's node itself, not its parent, not one of its further ancestors.
\<close>

lemma findInstanceForObject_loop_null:
  "findInstanceForObject_loop w m object = Some None \<longleftrightarrow>
     (\<forall>(inst, obj) \<in> set m.
        obj \<noteq> object \<and> obj_parent (objects w obj) \<noteq> Some object \<and>
        SelectedInstances3D_isChildOf w obj object = Some False)"
proof (induction m)
  case Nil
  show ?case by simp
next
  case (Cons e m)
  obtain inst obj where e: "e = (inst, obj)" by (cases e)
  show ?case
    using Cons by (auto simp: e split: option.splits bool.splits)
qed

subsection \<open>A node no instance maps to\<close>

text \<open>
  The lookup goes through every entry of the map and never reads the selection. With
  instance 5 selected alone and mapped to node 7, and the unselected instance 6 mapped to
  node 8, no selected instance maps to node 8 (not node 7 itself, not its parent, none of
  its ancestors); yet the handler run for node 8 calls the setters of instance 6, fires
  the callback and clears the node's pending flag.
\<close>

theorem C9_unselected_instance_counterexample:
  "si_selectedInstances
     (SelectedInstances3D_updateSelection example_selection [5] [(5, 7), (6, 8)]) = [5]
   \<and> Map_get (si_instanceToObjectMap
        (SelectedInstances3D_updateSelection example_selection [5] [(5, 7), (6, 8)])) 5 = Some 7
   \<and> obj_parent (objects
        (example_world \<lparr>ud_needsUpdate = True, ud_position = Some (Vec3 10 4 0),
                        ud_rotation = None, ud_scale = None\<rparr> example_instance) 7) = None
   \<and> SelectedInstances3D_isChildOf
        (example_world \<lparr>ud_needsUpdate = True, ud_position = Some (Vec3 10 4 0),
                        ud_rotation = None, ud_scale = None\<rparr> example_instance) 7 8 = Some False
   \<and> callsAfter
        (SelectedInstances3D_onObjectChanged
           (SelectedInstances3D_updateSelection example_selection [5] [(5, 7), (6, 8)])
           8 Translate
           (example_world \<lparr>ud_needsUpdate = True, ud_position = Some (Vec3 10 4 0),
                           ud_rotation = None, ud_scale = None\<rparr> example_instance)) =
       Some [SetX 6 7, SetY 6 0, SetZ 6 0, InstanceTransformed 6 Translate]
   \<and> needsUpdateAfter
        (SelectedInstances3D_onObjectChanged
           (SelectedInstances3D_updateSelection example_selection [5] [(5, 7), (6, 8)])
           8 Translate
           (example_world \<lparr>ud_needsUpdate = True, ud_position = Some (Vec3 10 4 0),
                           ud_rotation = None, ud_scale = None\<rparr> example_instance)) 8 =
       Some False"
proof -
  let ?s = "SelectedInstances3D_updateSelection example_selection [5] [(5, 7), (6, 8)]"
  let ?w = "example_world \<lparr>ud_needsUpdate = True, ud_position = Some (Vec3 10 4 0),
                           ud_rotation = None, ud_scale = None\<rparr> example_instance"
  have sel: "si_selectedInstances ?s = [5]"
    and m: "si_instanceToObjectMap ?s = [(5, 7), (6, 8)]"
    by (simp_all add: SelectedInstances3D_updateSelection_def Let_def split: option.splits)
  have p: "obj_parent (objects ?w 7) = None"
    by (simp add: example_world_def)
  have c: "SelectedInstances3D_isChildOf ?w 7 8 = Some False"
    by (simp add: SelectedInstances3D_isChildOf_def example_world_def isChildOf_loop_None)
  have f: "SelectedInstances3D_findInstanceForObject ?s ?w 8 = Some (Some 6)"
    by (simp add: SelectedInstances3D_findInstanceForObject_def m p c)
  have r: "SelectedInstances3D_onObjectChanged ?s 8 Translate ?w =
           Some (onInstanceTransformed 6 Translate
             ((onObjectChanged_translate 6 (Vec3 10 4 0) ?w)
                \<lparr>objects := (objects (onObjectChanged_translate 6 (Vec3 10 4 0) ?w))
                   (8 := (objects (onObjectChanged_translate 6 (Vec3 10 4 0) ?w) 8)
                      \<lparr>obj_userData :=
                         (obj_userData (objects (onObjectChanged_translate 6 (Vec3 10 4 0) ?w) 8))
                           \<lparr>ud_needsUpdate := False\<rparr>\<rparr>)\<rparr>))"
    unfolding SelectedInstances3D_onObjectChanged_def f
    by (simp add: example_world_def Let_def)
  have calls: "callsAfter (SelectedInstances3D_onObjectChanged ?s 8 Translate ?w) =
       Some [SetX 6 7, SetY 6 0, SetZ 6 0, InstanceTransformed 6 Translate]"
    unfolding r
    by (simp add: callsAfter_def onObjectChanged_translate_def instance_defs Let_def
          example_world_def example_instance_def)
  have flag: "needsUpdateAfter (SelectedInstances3D_onObjectChanged ?s 8 Translate ?w) 8 =
       Some False"
    unfolding r
    by (simp add: needsUpdateAfter_def onInstanceTransformed_def)
  from sel m p c calls flag show ?thesis
    by (simp add: Map_get_def)
qed

text \<open>
  C9 (amended). If the completed-edit handler runs for a 3D node that no instance of the
  instance-to-node map, selected or not, maps to (by exact match, parent match or
  ancestor walk), it returns and leaves the world as it was: no instance setter is
  called, the \<^verbatim>\<open>onInstanceTransformed\<close> callback is not fired, and the node's
  pending \<^verbatim>\<open>userData.needsUpdate\<close> annotation stays as it was.
\<close>

theorem C9_unmatched_node:
  assumes "\<forall>(inst, obj) \<in> set (si_instanceToObjectMap s).
             obj \<noteq> object \<and> obj_parent (objects w obj) \<noteq> Some object \<and>
             SelectedInstances3D_isChildOf w obj object = Some False"
  shows "SelectedInstances3D_onObjectChanged s object transformType w = Some w"
proof -
  from assms have "SelectedInstances3D_findInstanceForObject s w object = Some None"
    by (simp only: SelectedInstances3D_findInstanceForObject_def findInstanceForObject_loop_null)
  then show ?thesis
    by (simp add: SelectedInstances3D_onObjectChanged_def)
qed

theorem C9_unmatched_node_witness:
  "SelectedInstances3D_onObjectChanged example_selection 8 Translate
     (example_world \<lparr>ud_needsUpdate = True, ud_position = Some (Vec3 10 4 0),
                     ud_rotation = None, ud_scale = None\<rparr> example_instance) =
   Some (example_world \<lparr>ud_needsUpdate = True, ud_position = Some (Vec3 10 4 0),
                     ud_rotation = None, ud_scale = None\<rparr> example_instance)"
proof -
  let ?w = "example_world \<lparr>ud_needsUpdate = True, ud_position = Some (Vec3 10 4 0),
                     ud_rotation = None, ud_scale = None\<rparr> example_instance"
  have m: "si_instanceToObjectMap example_selection = [(5, 7)]"
    by (simp add: example_selection_def si_defs Map_get_def Let_def)
  have "\<forall>(inst, obj) \<in> set (si_instanceToObjectMap example_selection).
             obj \<noteq> 8 \<and> obj_parent (objects ?w obj) \<noteq> Some 8 \<and>
             SelectedInstances3D_isChildOf ?w obj 8 = Some False"
    by (simp add: m example_world_def SelectedInstances3D_isChildOf_def isChildOf_loop_None)
  then show ?thesis
    by (rule C9_unmatched_node)
qed

text \<open>
  The annotation is cleared only when a matching instance is found and the pending edit
  is consumed: the last call is then the callback for that instance.
\<close>

lemma needsUpdate_cleared_only_when_matched:
  assumes "SelectedInstances3D_onObjectChanged s object transformType w = Some w'"
      and "ud_needsUpdate (obj_userData (objects w object))"
      and "\<not> ud_needsUpdate (obj_userData (objects w' object))"
  shows "\<exists>i. SelectedInstances3D_findInstanceForObject s w object = Some (Some i) \<and>
             last (calls w') = InstanceTransformed i transformType"
  using assms
  by (auto simp: SelectedInstances3D_onObjectChanged_def onInstanceTransformed_def Let_def
           split: option.splits if_splits)

subsection \<open>Translate\<close>

text \<open>
  C2. For every completed translate edit on an instance matched to the edited node (the
  pending-edit annotation is set and holds the widget position), the handler returns, and
  the instance's position is set to the widget position minus half the instance's width
  and height, and, when the instance has \<^verbatim>\<open>hasCustomSize\<close> and \<^verbatim>\<open>setZ\<close>, minus
  half its depth on Z (a missing \<^verbatim>\<open>getDepth\<close> counts as depth 0); otherwise Z is
  left alone. In particular, widget position (10, 4, 0) with width 6, height 8 and depth 0
  gives the instance position (7, 0).
\<close>

theorem C2_translate_edit:
  assumes "SelectedInstances3D_findInstanceForObject s w object = Some (Some i)"
      and "ud_needsUpdate (obj_userData (objects w object))"
      and "ud_position (obj_userData (objects w object)) = Some p"
  shows "\<exists>w'. SelectedInstances3D_onObjectChanged s object Translate w = Some w'
         \<and> in_x (instances w' i) = vx p - in_width (instances w i) / 2
         \<and> in_y (instances w' i) = vy p - in_height (instances w i) / 2
         \<and> in_z (instances w' i) =
             (if in_hasCustomSize (instances w i) \<and> in_setZ (instances w i)
              then vz p - (if in_getDepth (instances w i) then in_depth (instances w i) else 0) / 2
              else in_z (instances w i))"
  using assms
  by (simp add: SelectedInstances3D_onObjectChanged_def onObjectChanged_translate_def
        instance_defs Let_def)

theorem C2_translate_edit_witness:
  "\<exists>w'. SelectedInstances3D_onObjectChanged example_selection 7 Translate
           (example_world \<lparr>ud_needsUpdate = True, ud_position = Some (Vec3 10 4 0),
                           ud_rotation = None, ud_scale = None\<rparr> example_instance) = Some w'
        \<and> in_x (instances w' 5) = 7 \<and> in_y (instances w' 5) = 0 \<and> in_z (instances w' 5) = 0"
proof -
  let ?ud = "\<lparr>ud_needsUpdate = True, ud_position = Some (Vec3 10 4 0),
              ud_rotation = None, ud_scale = None\<rparr>"
  let ?w = "example_world ?ud example_instance"
  have f: "SelectedInstances3D_findInstanceForObject example_selection ?w 7 = Some (Some 5)"
    by (rule example_selection_find)
  have n: "ud_needsUpdate (obj_userData (objects ?w 7))"
    by (simp add: example_world_def)
  have p: "ud_position (obj_userData (objects ?w 7)) = Some (Vec3 10 4 0)"
    by (simp add: example_world_def)
  from C2_translate_edit [OF f n p] show ?thesis
    by (simp add: example_world_def example_instance_def)
qed

subsection \<open>Scale\<close>




subsection \<open>Rotate\<close>

text \<open>
  On an instance without \<^verbatim>\<open>setAngle\<close>, a rotate edit with a Z rotation of \<open>\<pi>\<close>
  leaves the yaw angle 0 as it is.
\<close>

theorem C4_yaw_counterexample:
  "map_option in_angle
     (instanceAfter
        (SelectedInstances3D_onObjectChanged example_selection 7 Rotate
           (example_world \<lparr>ud_needsUpdate = True, ud_position = None,
                           ud_rotation = Some (Vec3 0 0 pi), ud_scale = None\<rparr>
              (example_instance\<lparr>in_setAngle := False\<rparr>))) 5) = Some 0"
proof -
  let ?ud = "\<lparr>ud_needsUpdate = True, ud_position = None,
              ud_rotation = Some (Vec3 0 0 pi), ud_scale = None\<rparr>"
  let ?w = "example_world ?ud (example_instance\<lparr>in_setAngle := False\<rparr>)"
  have f: "SelectedInstances3D_findInstanceForObject example_selection ?w 7 = Some (Some 5)"
    by (rule example_selection_find)
  show ?thesis
    unfolding SelectedInstances3D_onObjectChanged_def f
    by (simp add: instanceAfter_def onObjectChanged_rotate_def instance_defs Let_def
          example_world_def example_instance_def)
qed

text \<open>
  C4 (amended). For every completed rotate edit on a matched instance, each of yaw, pitch
  and roll is set to the widget's Z, X and Y rotation converted from radians to degrees
  when the instance has the setter for it (\<^verbatim>\<open>setAngle\<close>, \<^verbatim>\<open>setRotationX\<close>,
  \<^verbatim>\<open>setRotationY\<close>), and is left alone otherwise. In particular, on an instance with
  \<^verbatim>\<open>setAngle\<close>, widget rotation.z = \<open>\<pi>\<close> gives the angle 180.
\<close>

theorem C4_rotate_edit:
  assumes "SelectedInstances3D_findInstanceForObject s w object = Some (Some i)"
      and "ud_needsUpdate (obj_userData (objects w object))"
      and "ud_rotation (obj_userData (objects w object)) = Some r"
  shows "\<exists>w'. SelectedInstances3D_onObjectChanged s object Rotate w = Some w'
         \<and> in_angle (instances w' i) =
             (if in_setAngle (instances w i) then vz r * 180 / pi else in_angle (instances w i))
         \<and> in_rotationX (instances w' i) =
             (if in_setRotationX (instances w i) then vx r * 180 / pi
              else in_rotationX (instances w i))
         \<and> in_rotationY (instances w' i) =
             (if in_setRotationY (instances w i) then vy r * 180 / pi
              else in_rotationY (instances w i))"
  using assms
  by (simp add: SelectedInstances3D_onObjectChanged_def onObjectChanged_rotate_def
        instance_defs Let_def)

theorem C4_rotate_edit_witness:
  "\<exists>w'. SelectedInstances3D_onObjectChanged example_selection 7 Rotate
           (example_world \<lparr>ud_needsUpdate = True, ud_position = None,
                           ud_rotation = Some (Vec3 0 0 pi), ud_scale = None\<rparr>
              example_instance) = Some w'
        \<and> in_angle (instances w' 5) = 180"
proof -
  let ?ud = "\<lparr>ud_needsUpdate = True, ud_position = None,
              ud_rotation = Some (Vec3 0 0 pi), ud_scale = None\<rparr>"
  let ?w = "example_world ?ud example_instance"
  have f: "SelectedInstances3D_findInstanceForObject example_selection ?w 7 = Some (Some 5)"
    by (rule example_selection_find)
  have n: "ud_needsUpdate (obj_userData (objects ?w 7))"
    by (simp add: example_world_def)
  have r: "ud_rotation (obj_userData (objects ?w 7)) = Some (Vec3 0 0 pi)"
    by (simp add: example_world_def)
  from C4_rotate_edit [OF f n r] show ?thesis
    by (auto simp: example_world_def example_instance_def)
qed

subsection \<open>From the widget's events to the handler\<close>

text \<open>
  The widget's continuous event makes the gizmo controller annotate its current node:
  the pending flag is set and the snapshots are the node's transform. Nothing else
  changes.
\<close>

lemma onControlsChange_snapshot:
  assumes "gz_currentObject g = Some node"
  shows "ud_needsUpdate (obj_userData (objects (Gizmo3DController_onControlsChange g w) node))
       \<and> ud_position (obj_userData (objects (Gizmo3DController_onControlsChange g w) node)) =
           Some (obj_position (objects w node))
       \<and> ud_rotation (obj_userData (objects (Gizmo3DController_onControlsChange g w) node)) =
           Some (obj_rotation (objects w node))
       \<and> ud_scale (obj_userData (objects (Gizmo3DController_onControlsChange g w) node)) =
           Some (obj_scale (objects w node))
       \<and> instances (Gizmo3DController_onControlsChange g w) = instances w
       \<and> calls (Gizmo3DController_onControlsChange g w) = calls w
       \<and> (\<forall>n. obj_parent (objects (Gizmo3DController_onControlsChange g w) n) =
                obj_parent (objects w n))"
  using assms
  by (simp add: Gizmo3DController_onControlsChange_def
        Gizmo3DController_updateObject3DFromControls_def Let_def)

text \<open>The lookup reads the nodes' parent references and nothing else of the world.\<close>

lemma isChildOf_loop_parents_only_aux:
  assumes run: "isChildOf_loop objs1 current parent = Some b"
  shows "\<forall>objs2 :: object3d_ref \<Rightarrow> object3d.
           (\<forall>n. obj_parent (objs1 n) = obj_parent (objs2 n)) \<longrightarrow>
           isChildOf_loop objs2 current parent = Some b"
proof (rule isChildOf_loop.raw_induct
    [where P = "\<lambda>(os :: object3d_ref \<Rightarrow> object3d) c p r.
                  \<forall>objs2 :: object3d_ref \<Rightarrow> object3d. (\<forall>n. obj_parent (os n) = obj_parent (objs2 n)) \<longrightarrow>
                              isChildOf_loop objs2 c p = Some r", OF _ run])
  fix loop :: "(object3d_ref \<Rightarrow> object3d) \<Rightarrow> object3d_ref option \<Rightarrow> object3d_ref \<Rightarrow> bool option"
  fix objs c p r
  assume IH: "\<And>os c' p' y. loop os c' p' = Some y \<Longrightarrow>
                \<forall>objs2 :: object3d_ref \<Rightarrow> object3d.
                  (\<forall>n. obj_parent (os n) = obj_parent (objs2 n)) \<longrightarrow>
                  isChildOf_loop objs2 c' p' = Some y"
    and step: "(case c of None \<Rightarrow> Some False
                | Some cur \<Rightarrow> if cur = p then Some True
                              else loop objs (obj_parent (objs cur)) p) = Some r"
  show "\<forall>objs2 :: object3d_ref \<Rightarrow> object3d.
          (\<forall>n. obj_parent (objs n) = obj_parent (objs2 n)) \<longrightarrow>
          isChildOf_loop objs2 c p = Some r"
  proof (intro allI impI)
    fix objs2 :: "object3d_ref \<Rightarrow> object3d"
    assume same: "\<forall>n. obj_parent (objs n) = obj_parent (objs2 n)"
    show "isChildOf_loop objs2 c p = Some r"
    proof (cases c)
      case None
      with step show ?thesis by (simp add: isChildOf_loop_None)
    next
      case (Some cur)
      show ?thesis
      proof (cases "cur = p")
        case True
        with step Some show ?thesis by (simp add: isChildOf_loop_Some)
      next
        case False
        with step Some have "loop objs (obj_parent (objs cur)) p = Some r"
          by simp
        from IH [OF this] same
        have "isChildOf_loop objs2 (obj_parent (objs cur)) p = Some r"
          by blast
        with same False Some show ?thesis
          by (simp add: isChildOf_loop_Some)
      qed
    qed
  qed
qed

lemma isChildOf_loop_parents_only:
  assumes "\<forall>n. obj_parent (objs1 n) = obj_parent (objs2 n)"
  shows "isChildOf_loop objs1 current parent = isChildOf_loop objs2 current parent"
proof (cases "isChildOf_loop objs1 current parent")
  case (Some b)
  with isChildOf_loop_parents_only_aux [OF Some] assms show ?thesis by simp
next
  case None
  show ?thesis
  proof (cases "isChildOf_loop objs2 current parent")
    case None2: None
    with None show ?thesis by simp
  next
    case (Some b)
    from assms have "\<forall>n. obj_parent (objs2 n) = obj_parent (objs1 n)" by simp
    with isChildOf_loop_parents_only_aux [OF Some] None show ?thesis by simp
  qed
qed

lemma findInstanceForObject_loop_parents_only:
  assumes "\<forall>n. obj_parent (objects w1 n) = obj_parent (objects w2 n)"
  shows "findInstanceForObject_loop w1 m object = findInstanceForObject_loop w2 m object"
proof (induction m)
  case Nil
  show ?case by simp
next
  case (Cons e m)
  obtain inst obj where e: "e = (inst, obj)" by (cases e)
  have "SelectedInstances3D_isChildOf w1 obj object = SelectedInstances3D_isChildOf w2 obj object"
    using assms isChildOf_loop_parents_only [OF assms]
    by (simp add: SelectedInstances3D_isChildOf_def)
  with Cons assms show ?case
    by (auto simp: e split: option.splits bool.splits)
qed

text \<open>
  A translate edit end to end: the continuous event followed by the terminal event moves
  the matched instance to the node's position minus half its width and height.
\<close>

lemma completed_translate_edit:
  assumes "si_gizmoController s = Some g"
      and "gz_currentObject g = Some node"
      and "gz_currentMode g = Translate"
      and "SelectedInstances3D_findInstanceForObject s w node = Some (Some i)"
  shows "\<exists>w'. SelectedInstances3D_objectChangeEvent s (Gizmo3DController_onControlsChange g w) = Some w'
           \<and> in_x (instances w' i) = vx (obj_position (objects w node)) - in_width (instances w i) / 2
           \<and> in_y (instances w' i) = vy (obj_position (objects w node)) - in_height (instances w i) / 2"
proof -
  let ?w1 = "Gizmo3DController_onControlsChange g w"
  note snap = onControlsChange_snapshot [OF assms(2), of w]
  have f: "SelectedInstances3D_findInstanceForObject s ?w1 node = Some (Some i)"
    using assms(4) findInstanceForObject_loop_parents_only [of ?w1 w] snap
    by (simp add: SelectedInstances3D_findInstanceForObject_def)
  have "\<exists>w'. SelectedInstances3D_onObjectChanged s node Translate ?w1 = Some w'
         \<and> in_x (instances w' i) = vx (obj_position (objects w node)) - in_width (instances ?w1 i) / 2
         \<and> in_y (instances w' i) = vy (obj_position (objects w node)) - in_height (instances ?w1 i) / 2"
    using f snap
    by (simp add: SelectedInstances3D_onObjectChanged_def onObjectChanged_translate_def
        instance_defs Let_def)
  then show ?thesis
    using assms(1,2,3) snap
    by (simp add: SelectedInstances3D_objectChangeEvent_def Gizmo3DController_onObjectChange_def)
qed

section \<open>Properties of the camera controller\<close>

lemma update_keeps_targets:
  "fc_sphericalTarget (FreeCameraController_update three s) = fc_sphericalTarget s
   \<and> fc_targetDistance (FreeCameraController_update three s) = fc_targetDistance s
   \<and> fc_isEnabled (FreeCameraController_update three s) = fc_isEnabled s"
  by (simp add: FreeCameraController_update_def FreeCameraController_updateKeyboardMovement_def
        Let_def)

lemma update_theta:
  "fc_isEnabled s \<Longrightarrow>
   sph_theta (fc_spherical (FreeCameraController_update three s)) =
     sph_theta (fc_spherical s) +
       (sph_theta (fc_sphericalTarget s) - sph_theta (fc_spherical s)) * dampingFactor"
  by (simp add: FreeCameraController_update_def FreeCameraController_updateKeyboardMovement_def
        Let_def)

lemma update_phi:
  "fc_isEnabled s \<Longrightarrow>
   sph_phi (fc_spherical (FreeCameraController_update three s)) =
     sph_phi (fc_spherical s) +
       (sph_phi (fc_sphericalTarget s) - sph_phi (fc_spherical s)) * dampingFactor"
  by (simp add: FreeCameraController_update_def FreeCameraController_updateKeyboardMovement_def
        Let_def)

lemma update_distance:
  "fc_isEnabled s \<Longrightarrow>
   fc_distance (FreeCameraController_update three s) =
     fc_distance s + (fc_targetDistance s - fc_distance s) * dampingFactor"
  by (simp add: FreeCameraController_update_def FreeCameraController_updateKeyboardMovement_def
        Let_def)

lemma damped_stepI:
  assumes "c' = c + (t - c) * dampingFactor"
  shows "damped_step c t c'"
proof -
  have e: "c' = c + (t - c) / 10"
    using assms by (simp add: dampingFactor_def)
  have 1: "c' - c = dampingFactor * (t - c)"
    by (simp add: assms)
  have 2: "t - c' = (1 - dampingFactor) * (t - c)"
    by (simp add: assms algebra_simps)
  have 3: "c \<le> t \<longrightarrow> c \<le> c' \<and> c' \<le> t"
    using e by (simp add: field_simps)
  have 4: "t \<le> c \<longrightarrow> t \<le> c' \<and> c' \<le> c"
    using e by (simp add: field_simps)
  from 1 2 3 4 show ?thesis
    unfolding damped_step_def by blast
qed

lemma funpow_update_keeps:
  "fc_sphericalTarget ((FreeCameraController_update three ^^ n) s) = fc_sphericalTarget s
   \<and> fc_targetDistance ((FreeCameraController_update three ^^ n) s) = fc_targetDistance s
   \<and> fc_isEnabled ((FreeCameraController_update three ^^ n) s) = fc_isEnabled s"
  by (induction n) (simp_all add: update_keeps_targets)

lemma geometric_recurrence:
  fixes f :: "nat \<Rightarrow> real"
  assumes "\<And>n. f (Suc n) = f n + (t - f n) * d"
  shows "t - f n = (1 - d) ^ n * (t - f 0)"
proof (induction n)
  case 0
  show ?case by simp
next
  case (Suc n)
  have "t - f (Suc n) = (1 - d) * (t - f n)"
    by (simp add: assms algebra_simps)
  also have "\<dots> = (1 - d) * ((1 - d) ^ n * (t - f 0))"
    by (simp only: Suc)
  finally show ?case by simp
qed

lemma update_geometric:
  assumes "fc_isEnabled s"
  shows "sph_theta (fc_sphericalTarget s) -
           sph_theta (fc_spherical ((FreeCameraController_update three ^^ n) s)) =
         (1 - dampingFactor) ^ n * (sph_theta (fc_sphericalTarget s) - sph_theta (fc_spherical s))
       \<and> sph_phi (fc_sphericalTarget s) -
           sph_phi (fc_spherical ((FreeCameraController_update three ^^ n) s)) =
         (1 - dampingFactor) ^ n * (sph_phi (fc_sphericalTarget s) - sph_phi (fc_spherical s))
       \<and> fc_targetDistance s - fc_distance ((FreeCameraController_update three ^^ n) s) =
         (1 - dampingFactor) ^ n * (fc_targetDistance s - fc_distance s)"
proof -
  have e: "fc_isEnabled ((FreeCameraController_update three ^^ k) s)" for k
    using assms by (simp add: funpow_update_keeps)
  have "sph_theta (fc_sphericalTarget s) -
          (\<lambda>k. sph_theta (fc_spherical ((FreeCameraController_update three ^^ k) s))) n =
        (1 - dampingFactor) ^ n *
          (sph_theta (fc_sphericalTarget s) -
             (\<lambda>k. sph_theta (fc_spherical ((FreeCameraController_update three ^^ k) s))) 0)"
    by (rule geometric_recurrence) (simp add: update_theta [OF e] funpow_update_keeps)
  moreover have "sph_phi (fc_sphericalTarget s) -
          (\<lambda>k. sph_phi (fc_spherical ((FreeCameraController_update three ^^ k) s))) n =
        (1 - dampingFactor) ^ n *
          (sph_phi (fc_sphericalTarget s) -
             (\<lambda>k. sph_phi (fc_spherical ((FreeCameraController_update three ^^ k) s))) 0)"
    by (rule geometric_recurrence) (simp add: update_phi [OF e] funpow_update_keeps)
  moreover have "fc_targetDistance s -
          (\<lambda>k. fc_distance ((FreeCameraController_update three ^^ k) s)) n =
        (1 - dampingFactor) ^ n *
          (fc_targetDistance s -
             (\<lambda>k. fc_distance ((FreeCameraController_update three ^^ k) s)) 0)"
    by (rule geometric_recurrence) (simp add: update_distance [OF e] funpow_update_keeps)
  ultimately show ?thesis by simp
qed

text \<open>
  C6. For every enabled controller state, a single \<^verbatim>\<open>update()\<close> moves each of the
  current theta, phi and distance towards its target by exactly the damping factor
  \<open>d = 0.1\<close> times the delta (target minus current) and leaves the targets alone; so the
  remaining delta shrinks by the factor \<open>1 - d\<close> with every call (after \<open>n\<close> calls it
  is \<open>(1 - d)\<^sup>n\<close> times the first delta), and the current value never overshoots
  the target. Pending keyboard movement only shifts the pan target, so the statement does
  not need to exclude it.
\<close>

theorem C6_update_damping:
  assumes "fc_isEnabled s"
  shows "dampingFactor = 0.1
     \<and> damped_step (sph_theta (fc_spherical s)) (sph_theta (fc_sphericalTarget s))
         (sph_theta (fc_spherical (FreeCameraController_update three s)))
     \<and> damped_step (sph_phi (fc_spherical s)) (sph_phi (fc_sphericalTarget s))
         (sph_phi (fc_spherical (FreeCameraController_update three s)))
     \<and> damped_step (fc_distance s) (fc_targetDistance s)
         (fc_distance (FreeCameraController_update three s))
     \<and> fc_sphericalTarget (FreeCameraController_update three s) = fc_sphericalTarget s
     \<and> fc_targetDistance (FreeCameraController_update three s) = fc_targetDistance s
     \<and> sph_theta (fc_sphericalTarget s) -
           sph_theta (fc_spherical ((FreeCameraController_update three ^^ n) s)) =
         (1 - dampingFactor) ^ n * (sph_theta (fc_sphericalTarget s) - sph_theta (fc_spherical s))
     \<and> sph_phi (fc_sphericalTarget s) -
           sph_phi (fc_spherical ((FreeCameraController_update three ^^ n) s)) =
         (1 - dampingFactor) ^ n * (sph_phi (fc_sphericalTarget s) - sph_phi (fc_spherical s))
     \<and> fc_targetDistance s - fc_distance ((FreeCameraController_update three ^^ n) s) =
         (1 - dampingFactor) ^ n * (fc_targetDistance s - fc_distance s)"
proof -
  have "dampingFactor = 0.1"
    by (simp add: dampingFactor_def)
  moreover have "damped_step (sph_theta (fc_spherical s)) (sph_theta (fc_sphericalTarget s))
         (sph_theta (fc_spherical (FreeCameraController_update three s)))"
    by (rule damped_stepI) (rule update_theta [OF assms])
  moreover have "damped_step (sph_phi (fc_spherical s)) (sph_phi (fc_sphericalTarget s))
         (sph_phi (fc_spherical (FreeCameraController_update three s)))"
    by (rule damped_stepI) (rule update_phi [OF assms])
  moreover have "damped_step (fc_distance s) (fc_targetDistance s)
         (fc_distance (FreeCameraController_update three s))"
    by (rule damped_stepI) (rule update_distance [OF assms])
  moreover note update_keeps_targets [of three s] update_geometric [where s = s and three = three and n = n, OF assms]
  ultimately show ?thesis
    by simp
qed

lemma example_controller_disabled: "\<not> fc_isEnabled example_controller"
  by (simp add: example_controller_def FreeCameraController_constructor_def
        FreeCameraController_updateSphericalFromCamera_def Let_def)

theorem C6_update_damping_witness:
  "fc_isEnabled (FreeCameraController_enable example_controller
       \<lparr>fc_sphericalTarget := \<lparr>sph_radius = 5, sph_phi = 2, sph_theta = 10\<rparr>, fc_targetDistance := 15\<rparr>)
   \<and> sph_theta (fc_spherical (FreeCameraController_update example_three
        (FreeCameraController_enable example_controller
       \<lparr>fc_sphericalTarget := \<lparr>sph_radius = 5, sph_phi = 2, sph_theta = 10\<rparr>, fc_targetDistance := 15\<rparr>))) = 1
   \<and> sph_phi (fc_spherical (FreeCameraController_update example_three
        (FreeCameraController_enable example_controller
       \<lparr>fc_sphericalTarget := \<lparr>sph_radius = 5, sph_phi = 2, sph_theta = 10\<rparr>, fc_targetDistance := 15\<rparr>))) = 1.1
   \<and> fc_distance (FreeCameraController_update example_three
        (FreeCameraController_enable example_controller
       \<lparr>fc_sphericalTarget := \<lparr>sph_radius = 5, sph_phi = 2, sph_theta = 10\<rparr>, fc_targetDistance := 15\<rparr>)) = 6"
proof -
  let ?s = "FreeCameraController_enable example_controller
       \<lparr>fc_sphericalTarget := \<lparr>sph_radius = 5, sph_phi = 2, sph_theta = 10\<rparr>, fc_targetDistance := 15\<rparr>"
  have e: "fc_isEnabled ?s"
    using example_controller_disabled by (simp add: FreeCameraController_enable_def Let_def)
  have v: "sph_theta (fc_spherical ?s) = 0 \<and> sph_phi (fc_spherical ?s) = 1 \<and> fc_distance ?s = 5
           \<and> sph_theta (fc_sphericalTarget ?s) = 10 \<and> sph_phi (fc_sphericalTarget ?s) = 2
           \<and> fc_targetDistance ?s = 15"
    using example_controller_disabled
    by (simp add: FreeCameraController_enable_def Let_def example_controller_def
          FreeCameraController_constructor_def FreeCameraController_updateSphericalFromCamera_def
          example_three_def example_camera_def Vector3_sub_def Vector3_length_def)
  from C6_update_damping [where s = ?s and three = example_three and n = 0, OF e] v e
  show ?thesis
    by (simp add: damped_step_def)
qed

subsection \<open>Disabled controller\<close>

lemma disable_removes_listeners:
  "fc_isEnabled s \<Longrightarrow>
   \<not> fc_isEnabled (FreeCameraController_disable s) \<and>
   fc_domListeners (FreeCameraController_disable s) \<inter>
     {Mousedown, Mousemove, Mouseup, Wheel, Contextmenu} = {} \<and>
   (fc_enableKeys s \<longrightarrow>
      fc_windowListeners (FreeCameraController_disable s) \<inter> {Keydown, Keyup} = {})"
  by (auto simp: FreeCameraController_disable_def Let_def)

text \<open>
  C8. While the controller is disabled, every input event handler (mouse down, move, up,
  wheel, key down, key up) and every \<^verbatim>\<open>update()\<close> leaves the whole state of the
  camera rig unchanged: current and target spherical coordinates, distance, pan target,
  mouse and key state, and the camera.
\<close>

theorem C8_disabled_no_change:
  assumes "\<not> fc_isEnabled s"
  shows "FreeCameraController_onMouseDown s me = s
       \<and> FreeCameraController_onMouseMove three s me = s
       \<and> FreeCameraController_onMouseUp s me = s
       \<and> FreeCameraController_onWheel s we = s
       \<and> FreeCameraController_onKeyDown s ke = s
       \<and> FreeCameraController_onKeyUp s ke = s
       \<and> FreeCameraController_update three s = s"
  using assms
  by (simp add: FreeCameraController_onMouseDown_def FreeCameraController_onMouseMove_def
        FreeCameraController_onMouseUp_def FreeCameraController_onWheel_def
        FreeCameraController_onKeyDown_def FreeCameraController_onKeyUp_def
        FreeCameraController_update_def)

theorem C8_disabled_no_change_witness:
  "\<not> fc_isEnabled (FreeCameraController_disable (FreeCameraController_enable example_controller))
   \<and> FreeCameraController_onMouseDown
       (FreeCameraController_disable (FreeCameraController_enable example_controller))
       \<lparr>me_button = 0, me_clientX = 3, me_clientY = 4\<rparr> =
     FreeCameraController_disable (FreeCameraController_enable example_controller)
   \<and> FreeCameraController_onWheel
       (FreeCameraController_disable (FreeCameraController_enable example_controller))
       \<lparr>we_deltaY = 100\<rparr> =
     FreeCameraController_disable (FreeCameraController_enable example_controller)
   \<and> FreeCameraController_update example_three
       (FreeCameraController_disable (FreeCameraController_enable example_controller)) =
     FreeCameraController_disable (FreeCameraController_enable example_controller)"
proof -
  let ?s = "FreeCameraController_disable (FreeCameraController_enable example_controller)"
  have d: "\<not> fc_isEnabled ?s"
    using example_controller_disabled
    by (simp add: FreeCameraController_disable_def FreeCameraController_enable_def Let_def)
  from C8_disabled_no_change [OF d] d show ?thesis
    by simp
qed

end
